theory Spec2Isabelle
  imports Main "HOL-Library.Word"
begin

section \<open>Go values and the ways a run ends\<close>

text \<open>
  A Go \<^verbatim>\<open>string\<close> is a sequence of bytes: \<^typ>\<open>string\<close>. A run of the program ends
  early in two ways, both values of \<open>error\<close>: \<^verbatim>\<open>console.ErrorExit(err, msg)\<close> prints and
  leaves the process, and the Go runtime panics on an index out of range or on a nil pointer
  that is dereferenced. The \<^verbatim>\<open>err\<close> of an exit is either made by
  \<^verbatim>\<open>fmt.Errorf(format, args...)\<close>, kept here as the format and its arguments, or it is
  the error that a remote call returned, kept as its text.
\<close>

datatype goerror =
    Errorf string "string list"
  | Remote string

datatype error =
    ErrorExit goerror string
  | IndexOutOfRange int nat
  | NilDereference

definition bindE :: "error + 'a \<Rightarrow> ('a \<Rightarrow> error + 'b) \<Rightarrow> error + 'b" where
  "bindE r f = (case r of Inl e \<Rightarrow> Inl e | Inr x \<Rightarrow> f x)"

text \<open>\<^verbatim>\<open>xs[i]\<close>: the runtime checks the index.\<close>

definition index :: "'a list \<Rightarrow> int \<Rightarrow> error + 'a" where
  "index xs i =
     (if 0 \<le> i \<and> i < int (length xs) then Inr (xs ! nat i)
      else Inl (IndexOutOfRange i (length xs)))"

text \<open>\<^verbatim>\<open>*p\<close> on a pointer: nil panics.\<close>

definition deref :: "'a option \<Rightarrow> error + 'a" where
  "deref p = (case p of None \<Rightarrow> Inl NilDereference | Some x \<Rightarrow> Inr x)"

text \<open>
  Code that talks to a remote service is a step on a state (the calls issued so far, and
  what the remote side stores): it returns the new state with a value or with the error that
  ended the run.
\<close>

type_synonym ('s, 'a) step = "'s \<Rightarrow> (error + 'a) \<times> 's"

definition ret :: "'a \<Rightarrow> ('s, 'a) step" where
  "ret x = (\<lambda>s. (Inr x, s))"

definition abort :: "error \<Rightarrow> ('s, 'a) step" where
  "abort e = (\<lambda>s. (Inl e, s))"

definition lift :: "error + 'a \<Rightarrow> ('s, 'a) step" where
  "lift r = (\<lambda>s. (r, s))"

definition andThen :: "('s, 'a) step \<Rightarrow> ('a \<Rightarrow> ('s, 'b) step) \<Rightarrow> ('s, 'b) step" where
  "andThen m f = (\<lambda>s. case m s of (Inl e, s') \<Rightarrow> (Inl e, s') | (Inr x, s') \<Rightarrow> f x s')"

subsection \<open>The functions of package strings and aws that the code calls\<close>

text \<open>\<^verbatim>\<open>aws.StringValue\<close>, \<^verbatim>\<open>aws.StringValueSlice\<close>, \<^verbatim>\<open>aws.String\<close>, \<^verbatim>\<open>aws.StringSlice\<close>:
  a pointer field of an SDK record is an option, nil reads as the empty string.\<close>

definition StringValue :: "string option \<Rightarrow> string" where
  "StringValue p = (case p of None \<Rightarrow> [] | Some s \<Rightarrow> s)"

definition StringValueSlice :: "string option list \<Rightarrow> string list" where
  "StringValueSlice ps = map StringValue ps"

definition StringSlice :: "string list \<Rightarrow> string option list" where
  "StringSlice xs = map Some xs"

text \<open>\<^verbatim>\<open>strings.Split(s, sep)\<close> for a separator of one byte: the pieces between the
  separators, one more than there are separators.\<close>

fun SplitFrom :: "char \<Rightarrow> string \<Rightarrow> string \<Rightarrow> string list" where
  "SplitFrom sep cur [] = [cur]"
| "SplitFrom sep cur (c # cs) =
     (if c = sep then cur # SplitFrom sep [] cs else SplitFrom sep (cur @ [c]) cs)"

definition Split :: "string \<Rightarrow> char \<Rightarrow> string list" where
  "Split s sep = SplitFrom sep [] s"

text \<open>\<^verbatim>\<open>strings.SplitN(s, sep, 2)\<close> for a separator of one byte: the text before the first
  separator and the whole rest after it, or \<open>s\<close> alone when it holds no separator.\<close>

definition SplitN2 :: "string \<Rightarrow> char \<Rightarrow> string list" where
  "SplitN2 s sep =
     (if sep \<in> set s
      then [takeWhile (\<lambda>c. c \<noteq> sep) s, tl (dropWhile (\<lambda>c. c \<noteq> sep) s)]
      else [s])"

text \<open>\<^verbatim>\<open>strings.Join(msgs, sep)\<close>.\<close>

fun Join :: "string list \<Rightarrow> string \<Rightarrow> string" where
  "Join [] sep = []"
| "Join [m] sep = m"
| "Join (m # n # ms) sep = m @ sep @ Join (n # ms) sep"

text \<open>\<^verbatim>\<open>strings.HasPrefix\<close>, \<^verbatim>\<open>strings.HasSuffix\<close>, \<^verbatim>\<open>strings.Contains\<close>.\<close>

definition HasPrefix :: "string \<Rightarrow> string \<Rightarrow> bool" where
  "HasPrefix s p = (take (length p) s = p)"

definition HasSuffix :: "string \<Rightarrow> string \<Rightarrow> bool" where
  "HasSuffix s p = (length p \<le> length s \<and> drop (length s - length p) s = p)"

fun Contains :: "string \<Rightarrow> string \<Rightarrow> bool" where
  "Contains [] sub = (sub = [])"
| "Contains (c # cs) sub = (HasPrefix (c # cs) sub \<or> Contains cs sub)"

text \<open>
  \<^verbatim>\<open>strings.ToUpper\<close> and \<^verbatim>\<open>strings.ToLower\<close>, exact on ASCII text: a byte that is no
  ASCII letter is left as it is. Go maps the letters outside ASCII too; no theorem below
  states the upper or lower case of a text outside ASCII.
\<close>

definition upperByte :: "char \<Rightarrow> char" where
  "upperByte c =
     (case map_of (zip ''abcdefghijklmnopqrstuvwxyz'' ''ABCDEFGHIJKLMNOPQRSTUVWXYZ'') c of
        Some u \<Rightarrow> u
      | None \<Rightarrow> c)"

definition lowerByte :: "char \<Rightarrow> char" where
  "lowerByte c =
     (case map_of (zip ''ABCDEFGHIJKLMNOPQRSTUVWXYZ'' ''abcdefghijklmnopqrstuvwxyz'') c of
        Some l \<Rightarrow> l
      | None \<Rightarrow> c)"

definition ToUpper :: "string \<Rightarrow> string" where
  "ToUpper s = map upperByte s"

definition ToLower :: "string \<Rightarrow> string" where
  "ToLower s = map lowerByte s"

text \<open>The verb \<^verbatim>\<open>%d\<close> of package fmt on an integer: its decimal digits.\<close>

fun formatNat :: "nat \<Rightarrow> string" where
  "formatNat n =
     (if n < 10 then [''0123456789'' ! n]
      else formatNat (n div 10) @ [''0123456789'' ! (n mod 10)])"

definition formatInt :: "int \<Rightarrow> string" where
  "formatInt i = (if i < 0 then CHR ''-'' # formatNat (nat (- i)) else formatNat (nat i))"


section \<open>Package ecs: the task inventory (src/ecs/task.go)\<close>

subsection \<open>The records of the AWS SDK that the code reads\<close>

text \<open>
  The SDK's records hold pointers: a field that a response leaves out is nil. Fields read
  through \<^verbatim>\<open>aws.StringValue\<close> or dereferenced by the code are options here; the elements
  of a slice are records. \<open>Time\<close> stands for \<^verbatim>\<open>time.Time\<close>, with \<open>0\<close> for its zero value.
\<close>

type_synonym Time = int

definition TimeValue :: "Time option \<Rightarrow> Time" where
  "TimeValue p = (case p of None \<Rightarrow> 0 | Some t \<Rightarrow> t)"

record awsecs_KeyValuePair =
  Name :: "string option"
  Value :: "string option"

record awsecs_Attachment =
  Type :: "string option"
  Details :: "awsecs_KeyValuePair list"

record awsecs_Task =
  TaskArn :: "string option"
  Cpu :: "string option"
  CreatedAt :: "Time option"
  TaskDefinitionArn :: "string option"
  DesiredStatus :: "string option"
  LastStatus :: "string option"
  Memory :: "string option"
  StartedBy :: "string option"
  Attachments :: "awsecs_Attachment list"

record awsecs_ContainerDefinition =
  Image :: "string option"
  Environment :: "awsecs_KeyValuePair list"

record awsecs_TaskDefinition =
  ContainerDefinitions :: "awsecs_ContainerDefinition list"
  TaskRoleArn :: "string option"

record awsecs_DescribeTaskDefinitionOutput =
  TaskDefinition :: "awsecs_TaskDefinition option"

record awsecs_ListTasksInput =
  Cluster :: "string option"
  LaunchType :: "string option"
  ServiceName :: "string option"
  StartedBy :: "string option"

record awsecs_ListTasksOutput =
  TaskArns :: "string option list"

record awsecs_DescribeTasksInput =
  Cluster :: "string option"
  Tasks :: "string option list"

text \<open>
  The SDK's client \<^verbatim>\<open>ecs.svc\<close> is the remote service: what it answers to a request is a
  parameter. \<open>ListTasksPages_reply\<close> gives the pages of a listing in order and the error, if
  one, that a page request ended with after them; \<open>DescribeTasks_reply\<close> gives the error or
  the task records. Each request is written to the list of calls issued.
\<close>

record awsecs_ECS =
  ListTasksPages_reply :: "awsecs_ListTasksInput \<Rightarrow> awsecs_ListTasksOutput list \<times> string option"
  DescribeTasks_reply :: "awsecs_DescribeTasksInput \<Rightarrow> string + awsecs_Task list"

datatype svc_call =
    ListTasksPagesCall awsecs_ListTasksInput
  | DescribeTasksCall awsecs_DescribeTasksInput

text \<open>
  \<^verbatim>\<open>svc.ListTasksPages(input, fn)\<close>: the SDK hands every page to \<open>fn\<close>, in order, until
  \<open>fn\<close> returns false or the pages end; \<open>fn\<close> is a closure, so it is a function on the
  variables it captures. The error is that of the page request that failed, if the walk got
  there.
\<close>

fun EachPage ::
  "awsecs_ListTasksOutput list \<Rightarrow> bool \<Rightarrow> (awsecs_ListTasksOutput \<Rightarrow> bool \<Rightarrow> 'acc \<Rightarrow> bool \<times> 'acc)
     \<Rightarrow> 'acc \<Rightarrow> bool \<times> 'acc" where
  "EachPage [] failed fn acc = (True, acc)"
| "EachPage (p # ps) failed fn acc =
     (case fn p (ps = [] \<and> \<not> failed) acc of
        (True, acc') \<Rightarrow> EachPage ps failed fn acc'
      | (False, acc') \<Rightarrow> (False, acc'))"

definition svc_ListTasksPages ::
  "awsecs_ECS \<Rightarrow> awsecs_ListTasksInput \<Rightarrow> (awsecs_ListTasksOutput \<Rightarrow> bool \<Rightarrow> 'acc \<Rightarrow> bool \<times> 'acc)
     \<Rightarrow> 'acc \<Rightarrow> (svc_call list, 'acc \<times> string option) step" where
  "svc_ListTasksPages client input fn acc =
     (\<lambda>calls.
        case ListTasksPages_reply client input of
          (pages, err) \<Rightarrow>
            (case EachPage pages (err \<noteq> None) fn acc of
               (through, acc') \<Rightarrow>
                 (Inr (acc', if through then err else None), calls @ [ListTasksPagesCall input])))"

definition svc_DescribeTasks ::
  "awsecs_ECS \<Rightarrow> awsecs_DescribeTasksInput \<Rightarrow> (svc_call list, string + awsecs_Task list) step" where
  "svc_DescribeTasks client input =
     (\<lambda>calls. (Inr (DescribeTasks_reply client input), calls @ [DescribeTasksCall input]))"

subsection \<open>The package's own records\<close>

text \<open>
  \<open>EnvVar\<close> and the receiver \<open>ECS\<close> are declared in files of the package outside
  \<^verbatim>\<open>src/\<close>, and so are the methods \<^verbatim>\<open>GetRevisionNumber\<close> and
  \<^verbatim>\<open>DescribeTaskDefinition\<close> of \<open>ECS\<close>: the two methods are parameters, fields of the
  receiver; \<open>DescribeTaskDefinition\<close> may end the run as every remote call of the package
  does. \<open>Instances\<close> is an \<^verbatim>\<open>int64\<close>.
\<close>

record EnvVar =
  Key :: string
  Value :: string

record Task =
  Cpu :: string
  CreatedAt :: Time
  DeploymentId :: string
  DesiredStatus :: string
  EniId :: string
  EnvVars :: "EnvVar list"
  Image :: string
  LastStatus :: string
  Memory :: string
  SecurityGroupIds :: "string list"
  StartedBy :: string
  SubnetId :: string
  TaskId :: string
  TaskRole :: string

record TaskGroup =
  TaskGroupName :: string
  Instances :: "64 word"

record ECS =
  svc :: awsecs_ECS
  ClusterName :: string
  GetRevisionNumber :: "string \<Rightarrow> string"
  DescribeTaskDefinition :: "string \<Rightarrow> error + awsecs_DescribeTaskDefinitionOutput"

definition detailNetworkInterfaceId :: string where
  "detailNetworkInterfaceId = ''networkInterfaceId''"

definition detailSubnetId :: string where
  "detailSubnetId = ''subnetId''"

definition eniAttachmentType :: string where
  "eniAttachmentType = ''ElasticNetworkInterface''"

subsection \<open>determineENIDetails\<close>

text \<open>The loop over \<^verbatim>\<open>attachment.Details\<close>: the switch on the detail's name.\<close>

fun determineENIDetails_details ::
  "awsecs_KeyValuePair list \<Rightarrow> string \<times> string \<Rightarrow> string \<times> string" where
  "determineENIDetails_details [] (eniId, subnetId) = (eniId, subnetId)"
| "determineENIDetails_details (detail # details) (eniId, subnetId) =
     determineENIDetails_details details
       (if StringValue (Name detail) = detailNetworkInterfaceId
          then (StringValue (awsecs_KeyValuePair.Value detail), subnetId)
        else if StringValue (Name detail) = detailSubnetId
          then (eniId, StringValue (awsecs_KeyValuePair.Value detail))
        else (eniId, subnetId))"

text \<open>The loop over \<^verbatim>\<open>t.Attachments\<close>; \<^verbatim>\<open>*attachment.Type\<close> dereferences the pointer.\<close>

fun determineENIDetails_attachments ::
  "awsecs_Attachment list \<Rightarrow> bool \<times> string \<times> string \<Rightarrow> error + bool \<times> string \<times> string" where
  "determineENIDetails_attachments [] (foundEni, eniId, subnetId) = Inr (foundEni, eniId, subnetId)"
| "determineENIDetails_attachments (attachment # attachments) (foundEni, eniId, subnetId) =
     bindE (deref (Type attachment)) (\<lambda>ty.
       if ty \<noteq> eniAttachmentType
       then determineENIDetails_attachments attachments (foundEni, eniId, subnetId)
       else (case determineENIDetails_details (Details attachment) (eniId, subnetId) of
               (eniId', subnetId') \<Rightarrow>
                 determineENIDetails_attachments attachments (True, eniId', subnetId')))"

definition determineENIDetails :: "awsecs_Task \<Rightarrow> error + bool \<times> string \<times> string" where
  "determineENIDetails t =
     (if length (Attachments t) > 0
      then determineENIDetails_attachments (Attachments t) (False, [], [])
      else Inr (False, [], []))"

subsection \<open>DescribeTasks\<close>

text \<open>The body of the loop over \<^verbatim>\<open>resp.Tasks\<close> (lines 203 to 239): one task record of the
  remote service becomes one \<open>Task\<close>.\<close>

definition DescribeTasks_each :: "ECS \<Rightarrow> awsecs_Task \<Rightarrow> error + Task" where
  "DescribeTasks_each ecs t =
     (let taskArn = StringValue (TaskArn t);
          contents = Split taskArn (CHR ''/'')
      in bindE (index contents (int (length contents) - 1)) (\<lambda>taskID.
         let task = \<lparr>Task.Cpu = StringValue (awsecs_Task.Cpu t),
                     CreatedAt = TimeValue (awsecs_Task.CreatedAt t),
                     DeploymentId = GetRevisionNumber ecs (StringValue (TaskDefinitionArn t)),
                     DesiredStatus = StringValue (awsecs_Task.DesiredStatus t),
                     EniId = [],
                     EnvVars = [],
                     Image = [],
                     LastStatus = StringValue (awsecs_Task.LastStatus t),
                     Memory = StringValue (awsecs_Task.Memory t),
                     SecurityGroupIds = [],
                     StartedBy = StringValue (awsecs_Task.StartedBy t),
                     SubnetId = [],
                     TaskId = taskID,
                     TaskRole = []\<rparr>
         in bindE (DescribeTaskDefinition ecs (StringValue (TaskDefinitionArn t))) (\<lambda>taskDefinition.
            bindE (deref (TaskDefinition taskDefinition)) (\<lambda>taskDef.
            bindE (index (ContainerDefinitions taskDef) 0) (\<lambda>container.
            let task = task\<lparr>Image := StringValue (awsecs_ContainerDefinition.Image container)\<rparr>;
                task = task\<lparr>TaskRole := StringValue (TaskRoleArn taskDef)\<rparr>;
                task = task\<lparr>EnvVars := foldl
                         (\<lambda>envVars environment.
                            envVars @ [\<lparr>Key = StringValue (Name environment),
                                        Value = StringValue (awsecs_KeyValuePair.Value environment)\<rparr>])
                         (EnvVars task) (Environment container)\<rparr>
            in bindE (determineENIDetails t) (\<lambda>(found, eniId, subnetId).
               Inr (if found then task\<lparr>EniId := eniId, SubnetId := subnetId\<rparr> else task)))))))"

fun DescribeTasks_loop :: "ECS \<Rightarrow> awsecs_Task list \<Rightarrow> Task list \<Rightarrow> error + Task list" where
  "DescribeTasks_loop ecs [] tasks = Inr tasks"
| "DescribeTasks_loop ecs (t # ts) tasks =
     bindE (DescribeTasks_each ecs t) (\<lambda>task. DescribeTasks_loop ecs ts (tasks @ [task]))"

definition DescribeTasks :: "ECS \<Rightarrow> string list \<Rightarrow> (svc_call list, Task list) step" where
  "DescribeTasks ecs taskIds =
     (if length taskIds = 0 then ret []
      else andThen
             (svc_DescribeTasks (svc ecs)
                \<lparr>awsecs_DescribeTasksInput.Cluster = Some (ClusterName ecs), Tasks = StringSlice taskIds\<rparr>)
             (\<lambda>reply.
                case reply of
                  Inl err \<Rightarrow> abort (ErrorExit (Remote err) ''Could not describe ECS tasks'')
                | Inr resp_Tasks \<Rightarrow> lift (DescribeTasks_loop ecs resp_Tasks [])))"

subsection \<open>listTasks\<close>

text \<open>The loop over \<^verbatim>\<open>taskArnBatches\<close>, with the inner loop that appends every task
  described.\<close>

fun listTasks_loop :: "ECS \<Rightarrow> string list list \<Rightarrow> Task list \<Rightarrow> (svc_call list, Task list) step" where
  "listTasks_loop ecs [] tasks = ret tasks"
| "listTasks_loop ecs (taskArnBatch # taskArnBatches) tasks =
     andThen (DescribeTasks ecs taskArnBatch) (\<lambda>described.
       listTasks_loop ecs taskArnBatches (foldl (\<lambda>tasks task. tasks @ [task]) tasks described))"

definition listTasks :: "ECS \<Rightarrow> awsecs_ListTasksInput \<Rightarrow> (svc_call list, Task list) step" where
  "listTasks ecs input =
     andThen
       (svc_ListTasksPages (svc ecs) input
          (\<lambda>resp lastPage taskArnBatches.
             (True,
              if length (TaskArns resp) > 0
              then taskArnBatches @ [StringValueSlice (TaskArns resp)]
              else taskArnBatches))
          [])
       (\<lambda>(taskArnBatches, err).
          case err of
            Some e \<Rightarrow> abort (ErrorExit (Remote e) ''Could not list ECS tasks'')
          | None \<Rightarrow>
              if length taskArnBatches > 0 then listTasks_loop ecs taskArnBatches [] else ret [])"

text \<open>What describing a list of batches one after the other comes to: the first failure,
  or all the described tasks, concatenated in the order of the batches.\<close>

fun firstFailureOrAll :: "(error + 'a list) list \<Rightarrow> error + 'a list" where
  "firstFailureOrAll [] = Inr []"
| "firstFailureOrAll (r # rs) =
     bindE r (\<lambda>xs. bindE (firstFailureOrAll rs) (\<lambda>ys. Inr (xs @ ys)))"

subsection \<open>ListTaskGroups\<close>

text \<open>
  \<^verbatim>\<open>regexp.MustCompile("fargate:(.*)").FindStringSubmatch(s)\<close>: the pattern is not
  anchored, so the match starts at the first \<^verbatim>\<open>fargate:\<close> in \<open>s\<close>; \<^verbatim>\<open>.\<close> matches every
  character but the line feed and \<^verbatim>\<open>*\<close> is greedy, so the group runs to the end of the
  line. The result is the whole match and the group, or nil (the empty list) with no match.
\<close>

fun afterFirst :: "string \<Rightarrow> string \<Rightarrow> string option" where
  "afterFirst needle [] = (if needle = [] then Some [] else None)"
| "afterFirst needle (c # cs) =
     (if HasPrefix (c # cs) needle then Some (drop (length needle) (c # cs))
      else afterFirst needle cs)"

definition taskGroupStartedBy_FindStringSubmatch :: "string \<Rightarrow> string list" where
  "taskGroupStartedBy_FindStringSubmatch s =
     (case afterFirst ''fargate:'' s of
        None \<Rightarrow> []
      | Some rest \<Rightarrow>
          [''fargate:'' @ takeWhile (\<lambda>c. c \<noteq> CHR 0x0A) rest, takeWhile (\<lambda>c. c \<noteq> CHR 0x0A) rest])"

text \<open>The inner loop over \<^verbatim>\<open>taskGroups\<close>: the first group of that name is incremented in
  place (\<^verbatim>\<open>continue OUTER\<close>), or the loop falls through (\<open>None\<close>).\<close>

fun ListTaskGroups_inner :: "string \<Rightarrow> TaskGroup list \<Rightarrow> TaskGroup list option" where
  "ListTaskGroups_inner taskGroupName [] = None"
| "ListTaskGroups_inner taskGroupName (taskGroup # taskGroups) =
     (if TaskGroupName taskGroup = taskGroupName
      then Some (taskGroup\<lparr>Instances := Instances taskGroup + 1\<rparr> # taskGroups)
      else map_option (\<lambda>rest. taskGroup # rest) (ListTaskGroups_inner taskGroupName taskGroups))"

fun ListTaskGroups_outer :: "Task list \<Rightarrow> TaskGroup list \<Rightarrow> TaskGroup list" where
  "ListTaskGroups_outer [] taskGroups = taskGroups"
| "ListTaskGroups_outer (task # tasks) taskGroups =
     (let matches = taskGroupStartedBy_FindStringSubmatch (Task.StartedBy task)
      in if length matches = 2
         then (let taskGroupName = matches ! 1
               in case ListTaskGroups_inner taskGroupName taskGroups of
                    Some taskGroups' \<Rightarrow> ListTaskGroups_outer tasks taskGroups'
                  | None \<Rightarrow>
                      ListTaskGroups_outer tasks
                        (taskGroups @ [\<lparr>TaskGroupName = taskGroupName, Instances = 1\<rparr>]))
         else ListTaskGroups_outer tasks taskGroups)"

text \<open>The logical name that the loop reads off a started-by tag: the group of the match,
  when \<^verbatim>\<open>len(matches) == 2\<close>.\<close>

definition logicalName :: "string \<Rightarrow> string option" where
  "logicalName startedBy =
     (let matches = taskGroupStartedBy_FindStringSubmatch startedBy
      in if length matches = 2 then Some (matches ! 1) else None)"

definition ListTaskGroups :: "ECS \<Rightarrow> (svc_call list, TaskGroup list) step" where
  "ListTaskGroups ecs =
     andThen
       (listTasks ecs
          \<lparr>awsecs_ListTasksInput.Cluster = Some (ClusterName ecs), LaunchType = None,
           ServiceName = None, StartedBy = None\<rparr>)
       (\<lambda>tasks. ret (ListTaskGroups_outer tasks []))"


section \<open>Package cmd: creating a service (src/unnamed/part 000)\<close>

subsection \<open>Records\<close>

text \<open>
  The inputs of the calls to the other packages (\<^verbatim>\<open>ELBV2.CreateTargetGroupInput\<close>,
  \<^verbatim>\<open>ECS.CreateTaskDefinitionInput\<close>, \<^verbatim>\<open>ECS.CreateServiceInput\<close>), with the fields
  that \<open>createService\<close> sets; \<^verbatim>\<open>ELBV2.LoadBalancer\<close> and \<^verbatim>\<open>ELBV2.Rule\<close> with the
  fields that the code reads and writes; and \<open>Port\<close>, declared in package cmd outside
  \<^verbatim>\<open>src/\<close>, whose number is an \<^verbatim>\<open>int64\<close> that the code only compares and prints.
\<close>

record CreateTargetGroupInput =
  Name :: string
  Port :: int
  Protocol :: string
  VpcId :: string

record CreateTaskDefinitionInput =
  Cpu :: string
  EnvVars :: "EnvVar list"
  ExecutionRoleArn :: string
  Image :: string
  Memory :: string
  Name :: string
  Port :: int
  LogGroupName :: string
  LogRegion :: string

record CreateServiceInput =
  Cluster :: string
  Name :: string
  Port :: int
  SubnetIds :: "string list"
  TargetGroupArn :: string
  TaskDefinitionArn :: string

record LoadBalancer =
  Arn :: string
  Type :: string

record Rule =
  Type :: string
  Value :: string

record Port =
  Port :: int
  Protocol :: string

text \<open>
  The client \<^verbatim>\<open>ELBV2.ELBV2\<close> that the operation holds: what the load balancing service
  answers to each request is a parameter, and every request may end the run.
\<close>

record ELBV2 =
  DescribeLoadBalancer_reply :: "string \<Rightarrow> error + LoadBalancer"
  CreateTargetGroup_reply :: "CreateTargetGroupInput \<Rightarrow> error + string"
  AddRule_reply :: "string \<Rightarrow> string \<Rightarrow> Rule \<Rightarrow> error + unit"
  ModifyLoadBalancerDefaultAction_reply :: "string \<Rightarrow> string \<Rightarrow> error + unit"

record ServiceCreateOperation =
  ServiceName :: string
  Cpu :: string
  Image :: string
  Memory :: string
  Port :: Port
  LoadBalancerArn :: string
  LoadBalancerName :: string
  Rules :: "Rule list"
  Elbv2 :: ELBV2
  EnvVars :: "EnvVar list"

subsection \<open>The collaborators of createService\<close>

text \<open>
  \<open>createService\<close> makes its clients from the session of the process (\<^verbatim>\<open>sess\<close>) and
  calls git and docker in the working directory. The packages behind these calls are not
  under \<^verbatim>\<open>src/\<close>. What each call answers is a parameter, a field of \<open>Session\<close>; a call
  that can fail ends the run with its error, as the spec says of every remote call (section 7).
  \<open>logGroupFormat\<close>, \<open>region\<close> and \<open>clusterName\<close> are variables of package cmd.
  Every call is written to the calls issued.
\<close>

record Session =
  GetDefaultVpcSubnetIds_reply :: "error + string list"
  CreateEcsTaskExecutionRole_reply :: "error + string"
  CreateLogGroup_reply :: "string \<Rightarrow> string \<Rightarrow> error + string"
  GetUsernameAndPassword_reply :: "error + string \<times> string"
  IsCwdGitRepo_reply :: bool
  GetShortSha_reply :: "error + string"
  GenerateTag_reply :: string
  Login_reply :: "string \<Rightarrow> string \<Rightarrow> string \<Rightarrow> error + unit"
  Build_reply :: "string \<Rightarrow> string \<Rightarrow> error + unit"
  Push_reply :: "string \<Rightarrow> string \<Rightarrow> error + unit"
  UriFor :: "string \<Rightarrow> string \<Rightarrow> string"
  GetDefaultVpcId_reply :: "error + string"
  CreateTaskDefinition_reply :: "CreateTaskDefinitionInput \<Rightarrow> error + string"
  CreateService_reply :: "CreateServiceInput \<Rightarrow> error + unit"
  logGroupFormat :: string
  region :: string
  clusterName :: string
  newRepositoryUri :: "string \<Rightarrow> string"
  repositoryNotFound :: error
  repositoryAlreadyExists :: error

datatype call =
    Ecr_IsRepositoryCreated string
  | Ecr_GetRepositoryUri string
  | Ecr_CreateRepository string
  | Ec2_GetDefaultVpcSubnetIds
  | Iam_CreateEcsTaskExecutionRole
  | Cwl_CreateLogGroup string string
  | Ecr_GetUsernameAndPassword
  | Git_IsCwdGitRepo
  | Git_GetShortSha
  | Docker_GenerateTag
  | Repository_Login string string string
  | Repository_Build string string
  | Repository_Push string string
  | Ec2_GetDefaultVpcId
  | Elbv2_DescribeLoadBalancer string
  | Elbv2_CreateTargetGroup CreateTargetGroupInput
  | Elbv2_AddRule string string Rule
  | Elbv2_ModifyLoadBalancerDefaultAction string string
  | Ecs_CreateTaskDefinition CreateTaskDefinitionInput
  | Ecs_CreateService CreateServiceInput

text \<open>The state of a run: the image repositories that the registry holds, by name, with
  their URIs; and the calls issued so far.\<close>

record platform =
  repositories :: "string \<rightharpoonup> string"
  issued :: "call list"

definition remote :: "call \<Rightarrow> error + 'a \<Rightarrow> (platform, 'a) step" where
  "remote c reply = (\<lambda>s. (reply, s\<lparr>issued := issued s @ [c]\<rparr>))"

text \<open>
  Modelled from the spec: the image repository client (package ECR, not under \<^verbatim>\<open>src/\<close>).
  Section 6 gives it \<^verbatim>\<open>exists(name) -> bool\<close>, \<^verbatim>\<open>create(name) -> reference\<close> and
  \<^verbatim>\<open>reference(name) -> reference\<close>; section 8 names the failure of a creation,
  "already exists". A repository that was created exists from then on, under the reference
  that its creation returned.
\<close>

definition IsRepositoryCreated :: "string \<Rightarrow> (platform, bool) step" where
  "IsRepositoryCreated name =
     (\<lambda>s. remote (Ecr_IsRepositoryCreated name) (Inr (repositories s name \<noteq> None)) s)"

definition GetRepositoryUri :: "Session \<Rightarrow> string \<Rightarrow> (platform, string) step" where
  "GetRepositoryUri sess name =
     (\<lambda>s. remote (Ecr_GetRepositoryUri name)
             (case repositories s name of
                None \<Rightarrow> Inl (repositoryNotFound sess)
              | Some uri \<Rightarrow> Inr uri) s)"

definition CreateRepository :: "Session \<Rightarrow> string \<Rightarrow> (platform, string) step" where
  "CreateRepository sess name =
     (\<lambda>s. case repositories s name of
             Some uri \<Rightarrow> remote (Ecr_CreateRepository name) (Inl (repositoryAlreadyExists sess)) s
           | None \<Rightarrow>
               remote (Ecr_CreateRepository name) (Inr (newRepositoryUri sess name))
                 (s\<lparr>repositories := (repositories s)(name \<mapsto> newRepositoryUri sess name)\<rparr>))"

subsection \<open>SetPort\<close>

text \<open>
  Modelled from the spec: \<^verbatim>\<open>validProtocolsPattern\<close>, a constant of package cmd that is not
  under \<^verbatim>\<open>src/\<close>. Section 4.1: the protocol is one of TCP, HTTP, HTTPS, case-insensitive.
  \<open>validProtocols\<close> is \<^verbatim>\<open>regexp.MustCompile(validProtocolsPattern).MatchString\<close>.
\<close>

definition validProtocols :: "string \<Rightarrow> bool" where
  "validProtocols protocol = (ToUpper protocol \<in> {''TCP'', ''HTTP'', ''HTTPS''})"

text \<open>\<^verbatim>\<open>inflatePort\<close> is a function of package cmd outside \<^verbatim>\<open>src/\<close>: a parameter of
  \<open>SetPort\<close>.\<close>

definition SetPort ::
  "(string \<Rightarrow> Port) \<Rightarrow> ServiceCreateOperation \<Rightarrow> string \<Rightarrow> error + ServiceCreateOperation" where
  "SetPort inflatePort operation inputPort =
     (let msgs = [];
          port = inflatePort inputPort;
          msgs = (if \<not> validProtocols (Protocol port)
                  then msgs @ [''Invalid protocol '' @ Protocol port @ '' [specify TCP, HTTP, or HTTPS]'']
                  else msgs);
          msgs = (if Port.Port port < 1 \<or> Port.Port port > 65535
                  then msgs @ [''Invalid port '' @ formatInt (Port.Port port) @ '' [specify within 1 - 65535]'']
                  else msgs)
      in if length msgs > 0
         then Inl (ErrorExit (Errorf (Join msgs '', '') []) ''Invalid command line flags'')
         else Inr (operation\<lparr>Port := port\<rparr>))"

subsection \<open>SetLoadBalancer\<close>

definition SetLoadBalancer ::
  "ServiceCreateOperation \<Rightarrow> string \<Rightarrow> (platform, ServiceCreateOperation) step" where
  "SetLoadBalancer operation lb =
     andThen (remote (Elbv2_DescribeLoadBalancer lb) (DescribeLoadBalancer_reply (Elbv2 operation) lb))
       (\<lambda>loadBalancer.
     andThen
       (if LoadBalancer.Type loadBalancer = ''network''
        then (if Protocol (Port operation) \<noteq> ''TCP''
              then abort (ErrorExit (Errorf ''network load balancer %s only supports TCP'' [lb])
                            ''Invalid load balancer and protocol'')
              else ret ())
        else ret ())
       (\<lambda>_.
     andThen
       (if LoadBalancer.Type loadBalancer = ''application''
        then (if \<not> (Protocol (Port operation) = ''HTTP'' \<or> Protocol (Port operation) = ''HTTPS'')
              then abort (ErrorExit
                            (Errorf ''application load balancer %s only supports HTTP or HTTPS'' [lb])
                            ''Invalid load balancer and protocol'')
              else ret ())
        else ret ())
       (\<lambda>_. ret (operation\<lparr>LoadBalancerName := lb, LoadBalancerArn := Arn loadBalancer\<rparr>))))"

subsection \<open>SetRules\<close>

text \<open>
  \<^verbatim>\<open>regexp.MustCompile("(?i)^host|path$").MatchString\<close>. The alternation binds weaker than
  the anchors: the pattern reads \<^verbatim>\<open>(^host)|(path$)\<close>, and \<^verbatim>\<open>MatchString\<close> looks for a
  match anywhere in the text. So it holds of a text that begins with \<^verbatim>\<open>host\<close> or ends
  with \<^verbatim>\<open>path\<close>, in any case of the letters. Under \<^verbatim>\<open>(?i)\<close> a letter of the pattern
  matches the letters that Unicode's simple case folding joins with it: the two ASCII cases
  for each of h, o, t, p and a, and for s also U+017F (the long s), in UTF-8 the bytes C5 BF.
  \<open>HasPrefixFold text letters\<close>: the text begins with the lower-case \<open>letters\<close>, so folded.
\<close>

fun HasPrefixFold :: "string \<Rightarrow> string \<Rightarrow> bool" where
  "HasPrefixFold text [] = True"
| "HasPrefixFold [] (p # ps) = False"
| "HasPrefixFold (c # cs) (p # ps) =
     (if lowerByte c = p then HasPrefixFold cs ps
      else if p = CHR ''s'' \<and> c = CHR 0xC5 \<and> HasPrefix cs [CHR 0xBF]
        then HasPrefixFold (tl cs) ps
      else False)"

definition validRuleTypes :: "string \<Rightarrow> bool" where
  "validRuleTypes s = (HasPrefixFold s ''host'' \<or> HasSuffix (ToLower s) ''path'')"

text \<open>The body of the loop over \<^verbatim>\<open>inputRules\<close> (lines 94 to 109), on the variables
  \<open>rules\<close> and \<open>msgs\<close>.\<close>

definition SetRules_each :: "string \<Rightarrow> Rule list \<times> string list \<Rightarrow> error + Rule list \<times> string list" where
  "SetRules_each inputRule = (\<lambda>(rules, msgs).
     let splitInputRule = SplitN2 inputRule (CHR ''='');
         msgs = (if length splitInputRule \<noteq> 2
                 then msgs @ [''rules must be in the form of type=value'']
                 else msgs)
     in bindE (index splitInputRule 0) (\<lambda>ruleType.
        let msgs = (if \<not> validRuleTypes ruleType
                    then msgs @ [''Invalid rule type '' @ ruleType @ '' [must be path or host]'']
                    else msgs)
        in bindE (index splitInputRule 1) (\<lambda>ruleValue.
           Inr (rules @ [\<lparr>Type = ToUpper ruleType, Value = ruleValue\<rparr>], msgs))))"

fun SetRules_loop :: "string list \<Rightarrow> Rule list \<times> string list \<Rightarrow> error + Rule list \<times> string list" where
  "SetRules_loop [] state = Inr state"
| "SetRules_loop (inputRule # inputRules) state =
     bindE (SetRules_each inputRule state) (SetRules_loop inputRules)"

definition SetRules :: "ServiceCreateOperation \<Rightarrow> string list \<Rightarrow> error + ServiceCreateOperation" where
  "SetRules operation inputRules =
     (let msgs = (if length inputRules > 0 \<and> LoadBalancerArn operation = []
                  then [''lb must be configured if rules are specified'']
                  else [])
      in bindE (SetRules_loop inputRules ([], msgs)) (\<lambda>(rules, msgs).
         if length msgs > 0
         then Inl (ErrorExit (Errorf (Join msgs '', '') []) ''Invalid rule'')
         else Inr (operation\<lparr>Rules := rules\<rparr>)))"

subsection \<open>createService\<close>

text \<open>Lines 182 to 186: the image repository of the service.\<close>

definition createService_repository :: "Session \<Rightarrow> string \<Rightarrow> (platform, string) step" where
  "createService_repository sess serviceName =
     andThen (IsRepositoryCreated serviceName) (\<lambda>created.
       if created then GetRepositoryUri sess serviceName else CreateRepository sess serviceName)"

text \<open>Lines 193 to 209: without an image, one is built and pushed, and the operation gets
  its reference. \<open>repository\<close> is the \<^verbatim>\<open>docker.Repository\<close>, by its URI.\<close>

definition createService_image ::
  "Session \<Rightarrow> string \<Rightarrow> ServiceCreateOperation \<Rightarrow> (platform, ServiceCreateOperation) step" where
  "createService_image sess repository operation =
     (if Image operation = []
      then andThen (remote Ecr_GetUsernameAndPassword (GetUsernameAndPassword_reply sess))
             (\<lambda>(username, password).
           andThen (remote Git_IsCwdGitRepo (Inr (IsCwdGitRepo_reply sess))) (\<lambda>isGitRepo.
           andThen (if isGitRepo then remote Git_GetShortSha (GetShortSha_reply sess)
                    else remote Docker_GenerateTag (Inr (GenerateTag_reply sess))) (\<lambda>tag.
           andThen (remote (Repository_Login repository username password)
                      (Login_reply sess repository username password)) (\<lambda>_.
           andThen (remote (Repository_Build repository tag) (Build_reply sess repository tag)) (\<lambda>_.
           andThen (remote (Repository_Push repository tag) (Push_reply sess repository tag)) (\<lambda>_.
           ret (operation\<lparr>Image := UriFor sess repository tag\<rparr>)))))))
      else ret operation)"

text \<open>Lines 223 to 225: the loop over \<^verbatim>\<open>operation.Rules\<close>.\<close>

fun createService_rules :: "ELBV2 \<Rightarrow> string \<Rightarrow> string \<Rightarrow> Rule list \<Rightarrow> (platform, unit) step" where
  "createService_rules elbv2 loadBalancerArn targetGroupArn [] = ret ()"
| "createService_rules elbv2 loadBalancerArn targetGroupArn (rule # rules) =
     andThen (remote (Elbv2_AddRule loadBalancerArn targetGroupArn rule)
                (AddRule_reply elbv2 loadBalancerArn targetGroupArn rule))
       (\<lambda>_. createService_rules elbv2 loadBalancerArn targetGroupArn rules)"

text \<open>Lines 211 to 229: the load balancer; the value is \<open>targetGroupArn\<close>, empty when the
  block is skipped.\<close>

definition createService_loadBalancer ::
  "Session \<Rightarrow> ServiceCreateOperation \<Rightarrow> (platform, string) step" where
  "createService_loadBalancer sess operation =
     (if LoadBalancerArn operation \<noteq> []
      then andThen (remote Ec2_GetDefaultVpcId (GetDefaultVpcId_reply sess)) (\<lambda>vpcId.
           let input = \<lparr>CreateTargetGroupInput.Name =
                           LoadBalancerName operation @ ''-'' @ ServiceName operation,
                        Port = Port.Port (Port operation),
                        Protocol = Protocol (Port operation),
                        VpcId = vpcId\<rparr>
           in andThen (remote (Elbv2_CreateTargetGroup input)
                         (CreateTargetGroup_reply (Elbv2 operation) input)) (\<lambda>targetGroupArn.
              andThen
                (if length (Rules operation) > 0
                 then createService_rules (Elbv2 operation) (LoadBalancerArn operation)
                        targetGroupArn (Rules operation)
                 else remote (Elbv2_ModifyLoadBalancerDefaultAction (LoadBalancerArn operation)
                                targetGroupArn)
                        (ModifyLoadBalancerDefaultAction_reply (Elbv2 operation)
                           (LoadBalancerArn operation) targetGroupArn))
                (\<lambda>_. ret targetGroupArn)))
      else ret [])"

text \<open>The whole function; its value is the operation, whose \<open>Image\<close> it may have set.\<close>

definition createService ::
  "Session \<Rightarrow> ServiceCreateOperation \<Rightarrow> (platform, ServiceCreateOperation) step" where
  "createService sess operation =
     andThen (createService_repository sess (ServiceName operation)) (\<lambda>repositoryUri.
     andThen (remote Ec2_GetDefaultVpcSubnetIds (GetDefaultVpcSubnetIds_reply sess)) (\<lambda>subnetIds.
     andThen (remote Iam_CreateEcsTaskExecutionRole (CreateEcsTaskExecutionRole_reply sess))
       (\<lambda>ecsTaskExecutionRoleArn.
     andThen (remote (Cwl_CreateLogGroup (logGroupFormat sess) (ServiceName operation))
                (CreateLogGroup_reply sess (logGroupFormat sess) (ServiceName operation)))
       (\<lambda>logGroupName.
     andThen (createService_image sess repositoryUri operation) (\<lambda>operation.
     andThen (createService_loadBalancer sess operation) (\<lambda>targetGroupArn.
     let taskDefinitionInput =
           \<lparr>CreateTaskDefinitionInput.Cpu = Cpu operation,
            EnvVars = EnvVars operation,
            ExecutionRoleArn = ecsTaskExecutionRoleArn,
            Image = Image operation,
            Memory = Memory operation,
            Name = ServiceName operation,
            Port = Port.Port (Port operation),
            LogGroupName = logGroupName,
            LogRegion = region sess\<rparr>
     in andThen (remote (Ecs_CreateTaskDefinition taskDefinitionInput)
                   (CreateTaskDefinition_reply sess taskDefinitionInput)) (\<lambda>taskDefinitionArn.
        let serviceInput =
              \<lparr>CreateServiceInput.Cluster = clusterName sess,
               Name = ServiceName operation,
               Port = Port.Port (Port operation),
               SubnetIds = subnetIds,
               TargetGroupArn = targetGroupArn,
               TaskDefinitionArn = taskDefinitionArn\<rparr>
        in andThen (remote (Ecs_CreateService serviceInput) (CreateService_reply sess serviceInput))
             (\<lambda>_. ret operation))))))))"

text \<open>The calls of the load balancer wiring (step 6 of the spec's sequence) and of the
  image build and publish (step 5).\<close>

fun isWiring :: "call \<Rightarrow> bool" where
  "isWiring Ec2_GetDefaultVpcId = True"
| "isWiring (Elbv2_CreateTargetGroup input) = True"
| "isWiring (Elbv2_AddRule loadBalancerArn targetGroupArn rule) = True"
| "isWiring (Elbv2_ModifyLoadBalancerDefaultAction loadBalancerArn targetGroupArn) = True"
| "isWiring c = False"

fun isImageBuild :: "call \<Rightarrow> bool" where
  "isImageBuild Ecr_GetUsernameAndPassword = True"
| "isImageBuild Git_IsCwdGitRepo = True"
| "isImageBuild Git_GetShortSha = True"
| "isImageBuild Docker_GenerateTag = True"
| "isImageBuild (Repository_Login repository username password) = True"
| "isImageBuild (Repository_Build repository tag) = True"
| "isImageBuild (Repository_Push repository tag) = True"
| "isImageBuild c = False"

section \<open>Concrete inputs\<close>

text \<open>A cluster whose listing comes in three pages, the second one empty, with two tasks
  started for the group \<open>web\<close>, one for \<open>worker\<close> and one started by a service.\<close>

definition example_remoteTask :: "string \<Rightarrow> string \<Rightarrow> awsecs_Task" where
  "example_remoteTask arn startedBy =
     \<lparr>TaskArn = Some arn, Cpu = Some ''256'', CreatedAt = None,
      TaskDefinitionArn = Some ''arn:aws:ecs:us-east-1:1:task-definition/web:3'',
      DesiredStatus = Some ''RUNNING'', LastStatus = Some ''RUNNING'', Memory = Some ''512'',
      StartedBy = Some startedBy, Attachments = []\<rparr>"

definition example_ecs :: ECS where
  "example_ecs =
     \<lparr>svc =
        \<lparr>ListTasksPages_reply =
           (\<lambda>input. ([\<lparr>TaskArns = [Some ''task/1'', Some ''task/2'']\<rparr>, \<lparr>TaskArns = []\<rparr>,
                        \<lparr>TaskArns = [Some ''task/3'', Some ''task/4'']\<rparr>], None)),
         DescribeTasks_reply =
           (\<lambda>input.
              if Tasks input = [Some ''task/1'', Some ''task/2'']
              then Inr [example_remoteTask ''task/1'' ''fargate:web'',
                        example_remoteTask ''task/2'' ''ecs-svc/7'']
              else Inr [example_remoteTask ''task/3'' ''fargate:web'',
                        example_remoteTask ''task/4'' ''fargate:worker''])\<rparr>,
      ClusterName = ''fargate'',
      GetRevisionNumber = (\<lambda>arn. ''3''),
      DescribeTaskDefinition =
        (\<lambda>arn. Inr \<lparr>awsecs_DescribeTaskDefinitionOutput.TaskDefinition =
                      Some \<lparr>ContainerDefinitions =
                              [\<lparr>awsecs_ContainerDefinition.Image = Some ''nginx'', Environment = []\<rparr>],
                            TaskRoleArn = None\<rparr>\<rparr>)\<rparr>"

definition example_clusterWide :: awsecs_ListTasksInput where
  "example_clusterWide =
     \<lparr>awsecs_ListTasksInput.Cluster = Some ''fargate'', LaunchType = None, ServiceName = None,
      StartedBy = None\<rparr>"

definition example_task :: "string \<Rightarrow> string \<Rightarrow> Task" where
  "example_task taskId startedBy =
     \<lparr>Task.Cpu = ''256'', CreatedAt = 0, DeploymentId = ''3'', DesiredStatus = ''RUNNING'',
      EniId = [], EnvVars = [], Image = ''nginx'', LastStatus = ''RUNNING'', Memory = ''512'',
      SecurityGroupIds = [], StartedBy = startedBy, SubnetId = [], TaskId = taskId, TaskRole = []\<rparr>"

text \<open>A task record with one attachment whose type the response left out.\<close>

definition example_untypedAttachment :: awsecs_Task where
  "example_untypedAttachment =
     (example_remoteTask ''task/5'' ''fargate:web'')
       \<lparr>Attachments := [\<lparr>awsecs_Attachment.Type = None, Details = []\<rparr>]\<rparr>"

text \<open>A load balancing service that knows an application balancer \<open>my-alb\<close> and a network
  balancer \<open>my-nlb\<close>; an operation for the service \<open>web\<close> on \<^verbatim>\<open>http:8080\<close> with no
  balancer, no rule and no image; and the same operation bound to \<open>my-alb\<close>.\<close>

definition example_elbv2 :: ELBV2 where
  "example_elbv2 =
     \<lparr>DescribeLoadBalancer_reply =
        (\<lambda>lb. if lb = ''my-alb'' then Inr \<lparr>Arn = ''arn:alb'', Type = ''application''\<rparr>
              else if lb = ''my-nlb'' then Inr \<lparr>Arn = ''arn:nlb'', Type = ''network''\<rparr>
              else Inl (ErrorExit (Remote ''LoadBalancerNotFound'')
                          ''Could not describe load balancer'')),
      CreateTargetGroup_reply = (\<lambda>input. Inr (''arn:tg/'' @ CreateTargetGroupInput.Name input)),
      AddRule_reply = (\<lambda>lbArn tgArn rule. Inr ()),
      ModifyLoadBalancerDefaultAction_reply = (\<lambda>lbArn tgArn. Inr ())\<rparr>"

definition example_operation :: ServiceCreateOperation where
  "example_operation =
     \<lparr>ServiceName = ''web'', Cpu = ''256'', Image = [], Memory = ''512'',
      Port = \<lparr>Port.Port = 8080, Protocol = ''HTTP''\<rparr>,
      LoadBalancerArn = [], LoadBalancerName = [], Rules = [], Elbv2 = example_elbv2,
      EnvVars = []\<rparr>"

definition example_bound :: ServiceCreateOperation where
  "example_bound =
     example_operation\<lparr>LoadBalancerName := ''my-alb'', LoadBalancerArn := ''arn:alb''\<rparr>"

text \<open>A session in which every call succeeds, in a working directory under git; and a
  registry with no repository, before any call.\<close>

definition example_session :: Session where
  "example_session =
     \<lparr>GetDefaultVpcSubnetIds_reply = Inr [''subnet-1'', ''subnet-2''],
      CreateEcsTaskExecutionRole_reply = Inr ''arn:role'',
      CreateLogGroup_reply = (\<lambda>format name. Inr (''/fargate/service/'' @ name)),
      GetUsernameAndPassword_reply = Inr (''AWS'', ''secret''),
      IsCwdGitRepo_reply = True,
      GetShortSha_reply = Inr ''abc1234'',
      GenerateTag_reply = ''20180101000000'',
      Login_reply = (\<lambda>uri username password. Inr ()),
      Build_reply = (\<lambda>uri tag. Inr ()),
      Push_reply = (\<lambda>uri tag. Inr ()),
      UriFor = (\<lambda>uri tag. uri @ '':'' @ tag),
      GetDefaultVpcId_reply = Inr ''vpc-1'',
      CreateTaskDefinition_reply =
        (\<lambda>input. Inr (''arn:task-definition/'' @ CreateTaskDefinitionInput.Name input @ '':1'')),
      CreateService_reply = (\<lambda>input. Inr ()),
      logGroupFormat = ''/fargate/service/%s'',
      region = ''us-east-1'',
      clusterName = ''fargate'',
      newRepositoryUri = (\<lambda>name. ''1.dkr.ecr.us-east-1.amazonaws.com/'' @ name),
      repositoryNotFound =
        ErrorExit (Remote ''RepositoryNotFoundException'') ''Could not find ECR repository'',
      repositoryAlreadyExists =
        ErrorExit (Remote ''RepositoryAlreadyExistsException'') ''Could not create ECR repository''\<rparr>"

definition example_platform :: platform where
  "example_platform = \<lparr>repositories = Map.empty, issued = []\<rparr>"

text \<open>What a port parser that follows section 4.1 of the spec reads from three inputs.\<close>

definition example_inflatePort :: "string \<Rightarrow> Port" where
  "example_inflatePort inputPort =
     (if inputPort = ''http:8080'' then \<lparr>Port.Port = 8080, Protocol = ''HTTP''\<rparr>
      else if inputPort = ''ftp:70000'' then \<lparr>Port.Port = 70000, Protocol = ''FTP''\<rparr>
      else if inputPort = ''https:0'' then \<lparr>Port.Port = 0, Protocol = ''HTTPS''\<rparr>
      else \<lparr>Port.Port = 80, Protocol = ''TCP''\<rparr>)"

text \<open>The bound operation with the rule that \<^verbatim>\<open>path=/api/*\<close> stands for.\<close>

definition example_ruled :: ServiceCreateOperation where
  "example_ruled = example_bound\<lparr>Rules := [\<lparr>Type = ''PATH'', Value = ''/api/*''\<rparr>]\<rparr>"

section \<open>The task inventory: theorems\<close>

subsection \<open>Evaluating the example\<close>

lemmas example_unfold =
  example_ecs_def example_remoteTask_def example_clusterWide_def example_task_def
  listTasks_def svc_ListTasksPages_def andThen_def ret_def abort_def lift_def
  StringValueSlice_def StringValue_def DescribeTasks_def svc_DescribeTasks_def StringSlice_def
  DescribeTasks_each_def bindE_def Split_def index_def deref_def determineENIDetails_def
  TimeValue_def Let_def

lemma example_listTasks:
  "listTasks example_ecs example_clusterWide [] =
     (Inr [example_task ''1'' ''fargate:web'', example_task ''2'' ''ecs-svc/7'',
           example_task ''3'' ''fargate:web'', example_task ''4'' ''fargate:worker''],
      [ListTasksPagesCall example_clusterWide,
       DescribeTasksCall \<lparr>awsecs_DescribeTasksInput.Cluster = Some ''fargate'',
                          Tasks = [Some ''task/1'', Some ''task/2'']\<rparr>,
       DescribeTasksCall \<lparr>awsecs_DescribeTasksInput.Cluster = Some ''fargate'',
                          Tasks = [Some ''task/3'', Some ''task/4'']\<rparr>])"
  by (simp add: example_unfold)

lemma example_DescribeTasks:
  "fst (DescribeTasks example_ecs [''task/1'', ''task/2''] []) =
     Inr [example_task ''1'' ''fargate:web'', example_task ''2'' ''ecs-svc/7'']"
  "fst (DescribeTasks example_ecs [''task/3'', ''task/4''] []) =
     Inr [example_task ''3'' ''fargate:web'', example_task ''4'' ''fargate:worker'']"
  by (simp_all add: example_unfold)

lemma example_logicalName:
  "logicalName ''fargate:web'' = Some ''web''"
  "logicalName ''fargate:worker'' = Some ''worker''"
  "logicalName ''ecs-svc/7'' = None"
  by (simp_all add: logicalName_def Let_def taskGroupStartedBy_FindStringSubmatch_def HasPrefix_def)

subsection \<open>Grouping (C2)\<close>

text \<open>The groups that a list of logical names stands for: the distinct names in the order in
  which they first occur, each with the number of its occurrences as an \<^verbatim>\<open>int64\<close>.\<close>

lemma ListTaskGroups_inner_map:
  "distinct ns \<Longrightarrow>
   ListTaskGroups_inner n (map (\<lambda>m. \<lparr>TaskGroupName = m, Instances = f m\<rparr>) ns) =
     (if n \<in> set ns
      then Some (map (\<lambda>m. \<lparr>TaskGroupName = m, Instances = (f(n := f n + 1)) m\<rparr>) ns)
      else None)"
  by (induction ns) auto

lemma ListTaskGroups_outer_tally:
  fixes tally :: "string list \<Rightarrow> TaskGroup list"
  defines "tally \<equiv> \<lambda>names. map (\<lambda>n. \<lparr>TaskGroupName = n, Instances = of_nat (count_list names n)\<rparr>)
                               (rev (remdups (rev names)))"
  shows "ListTaskGroups_outer tasks (tally prev) =
         tally (prev @ List.map_filter (\<lambda>task. logicalName (Task.StartedBy task)) tasks)"
proof (induction tasks arbitrary: prev)
  case Nil
  then show ?case by simp
next
  case (Cons t ts)
  have new: "tally (prev @ [n]) = tally prev @ [\<lparr>TaskGroupName = n, Instances = 1\<rparr>]"
    and none: "ListTaskGroups_inner n (tally prev) = None" if "n \<notin> set prev" for n
    using that by (auto simp: tally_def count_list_0_iff ListTaskGroups_inner_map)
  have old: "ListTaskGroups_inner n (tally prev) = Some (tally (prev @ [n]))" if "n \<in> set prev" for n
    using that by (simp add: tally_def ListTaskGroups_inner_map)
  show ?case
  proof (cases "logicalName (Task.StartedBy t)")
    case None
    then have "length (taskGroupStartedBy_FindStringSubmatch (Task.StartedBy t)) \<noteq> 2"
      by (auto simp: logicalName_def Let_def split: if_splits)
    with None Cons.IH [of prev] show ?thesis by (simp add: Let_def)
  next
    case (Some n)
    then have m: "length (taskGroupStartedBy_FindStringSubmatch (Task.StartedBy t)) = 2"
        "taskGroupStartedBy_FindStringSubmatch (Task.StartedBy t) ! 1 = n"
      by (auto simp: logicalName_def Let_def split: if_splits)
    show ?thesis
    proof (cases "n \<in> set prev")
      case True
      with Some m Cons.IH [of "prev @ [n]"] show ?thesis
        by (simp add: Let_def old)
    next
      case False
      with Some m Cons.IH [of "prev @ [n]"] show ?thesis
        by (simp add: Let_def new none)
    qed
  qed
qed

text \<open>\<open>Instances\<close> wraps at 64 bits; a count below \<open>2 ^ 63\<close>, as that of the elements of
  any slice, reads back as it is.\<close>

lemma Instances_of_count: "n < 2 ^ 63 \<Longrightarrow> sint (of_nat n :: 64 word) = int n"
  by (simp add: signed_of_nat signed_take_bit_int_eq_self)

text \<open>
  C2. Whatever list of tasks the cluster-wide listing returns, \<open>ListTaskGroups\<close> returns one
  group per distinct logical name among the tags that match \<^verbatim>\<open>fargate:(.*)\<close>, in the order
  in which the names are first seen, each with the number of listed tasks of that name (as
  the \<^verbatim>\<open>int64\<close> \<open>Instances\<close>); a task whose tag does not match has no logical name and
  adds to no group. When the listing ends the run, so does \<open>ListTaskGroups\<close>.
\<close>

theorem ListTaskGroups_one_group_per_name:
  "ListTaskGroups ecs calls =
     (case listTasks ecs
             \<lparr>awsecs_ListTasksInput.Cluster = Some (ClusterName ecs), LaunchType = None,
              ServiceName = None, StartedBy = None\<rparr> calls of
        (Inl e, calls') \<Rightarrow> (Inl e, calls')
      | (Inr tasks, calls') \<Rightarrow>
          (let names = List.map_filter (\<lambda>task. logicalName (Task.StartedBy task)) tasks
           in (Inr (map (\<lambda>name. \<lparr>TaskGroupName = name,
                                  Instances = of_nat (count_list names name)\<rparr>)
                      (rev (remdups (rev names)))),
               calls')))"
  using ListTaskGroups_outer_tally [of _ "[]"]
  by (simp add: ListTaskGroups_def andThen_def ret_def Let_def split: prod.splits sum.splits)

text \<open>The example of the claim: tags \<^verbatim>\<open>fargate:web\<close>, \<^verbatim>\<open>fargate:web\<close>,
  \<^verbatim>\<open>fargate:worker\<close> and one tag that does not match give \<open>web\<close> with 2 and \<open>worker\<close>
  with 1.\<close>

theorem ListTaskGroups_one_group_per_name_witness:
  "fst (ListTaskGroups example_ecs []) =
     Inr [\<lparr>TaskGroupName = ''web'', Instances = 2\<rparr>, \<lparr>TaskGroupName = ''worker'', Instances = 1\<rparr>]"
proof -
  have input: "\<lparr>awsecs_ListTasksInput.Cluster = Some (ClusterName example_ecs), LaunchType = None,
                ServiceName = None, StartedBy = None\<rparr> = example_clusterWide"
    by (simp add: example_ecs_def example_clusterWide_def)
  show ?thesis
    using ListTaskGroups_one_group_per_name [of example_ecs "[]"]
    by (simp add: input example_listTasks example_logicalName
        example_task_def Let_def)
qed

subsection \<open>Listing (C8, C10)\<close>

lemma EachPage_listTasks:
  "EachPage pages failed
     (\<lambda>resp lastPage taskArnBatches.
        (True,
         if length (TaskArns resp) > 0
         then taskArnBatches @ [StringValueSlice (TaskArns resp)]
         else taskArnBatches)) acc =
   (True, acc @ filter (\<lambda>batch. batch \<noteq> []) (map (\<lambda>page. StringValueSlice (TaskArns page)) pages))"
  by (induction pages arbitrary: acc) (auto simp: StringValueSlice_def)

lemma EachPage_listTasks':
  "EachPage pages failed
     (\<lambda>resp lastPage taskArnBatches.
        (True,
         if TaskArns resp \<noteq> []
         then taskArnBatches @ [StringValueSlice (TaskArns resp)]
         else taskArnBatches)) acc =
   (True, acc @ filter (\<lambda>batch. batch \<noteq> []) (map (\<lambda>page. StringValueSlice (TaskArns page)) pages))"
  using EachPage_listTasks [of pages failed acc] by simp

lemma foldl_snoc: "foldl (\<lambda>tasks task. tasks @ [task]) tasks described = tasks @ described"
  by (induction described arbitrary: tasks) auto

lemma DescribeTasks_fst: "fst (DescribeTasks ecs taskIds calls) = fst (DescribeTasks ecs taskIds [])"
  by (auto simp: DescribeTasks_def andThen_def svc_DescribeTasks_def ret_def abort_def lift_def
      split: sum.splits prod.splits)

lemma DescribeTasks_snd:
  "snd (DescribeTasks ecs taskIds calls) =
     (if taskIds = [] then calls
      else calls @ [DescribeTasksCall \<lparr>awsecs_DescribeTasksInput.Cluster = Some (ClusterName ecs),
                                      Tasks = StringSlice taskIds\<rparr>])"
  by (auto simp: DescribeTasks_def andThen_def svc_DescribeTasks_def ret_def abort_def lift_def
      split: sum.splits prod.splits)

lemma listTasks_loop_fst:
  "fst (listTasks_loop ecs batches tasks calls) =
     bindE (firstFailureOrAll (map (\<lambda>batch. fst (DescribeTasks ecs batch [])) batches))
       (\<lambda>described. Inr (tasks @ described))"
proof (induction batches arbitrary: tasks calls)
  case Nil
  then show ?case by (simp add: ret_def bindE_def)
next
  case (Cons b bs)
  obtain r calls' where d: "DescribeTasks ecs b calls = (r, calls')"
    by (cases "DescribeTasks ecs b calls")
  with DescribeTasks_fst [of ecs b calls] have r: "fst (DescribeTasks ecs b []) = r" by simp
  show ?case
  proof (cases r)
    case (Inl e)
    with d r show ?thesis by (simp add: andThen_def bindE_def)
  next
    case (Inr ts)
    with d r Cons.IH [of "tasks @ ts" calls'] show ?thesis
      by (simp add: andThen_def bindE_def foldl_snoc split: sum.splits)
  qed
qed

lemma listTasks_loop_snd:
  "[] \<notin> set batches \<Longrightarrow>
   DescribeTasksCall i \<in> set (snd (listTasks_loop ecs batches tasks calls)) \<Longrightarrow>
   DescribeTasksCall i \<in> set calls \<or> Tasks i \<noteq> []"
proof (induction batches arbitrary: tasks calls)
  case Nil
  then show ?case by (simp add: ret_def)
next
  case (Cons b bs)
  obtain r calls' where d: "DescribeTasks ecs b calls = (r, calls')"
    by (cases "DescribeTasks ecs b calls")
  from Cons.prems have b: "b \<noteq> []" and bs: "[] \<notin> set bs" by auto
  from d DescribeTasks_snd [of ecs b calls] b
  have calls': "calls' = calls @ [DescribeTasksCall
      \<lparr>awsecs_DescribeTasksInput.Cluster = Some (ClusterName ecs), Tasks = StringSlice b\<rparr>]"
    by simp
  show ?case
  proof (cases r)
    case (Inl e)
    with d Cons.prems(2) calls' b show ?thesis by (auto simp: andThen_def StringSlice_def)
  next
    case (Inr ts)
    with d Cons.prems(2)
    have "DescribeTasksCall i \<in> set (snd (listTasks_loop ecs bs (tasks @ ts) calls'))"
      by (simp add: andThen_def foldl_snoc)
    from Cons.IH [OF bs this] calls' b show ?thesis by (auto simp: StringSlice_def)
  qed
qed

text \<open>
  C8. \<open>listTasks\<close> walks every page of the listing before it returns. When a page request
  fails the run ends with that error and no partial list. Otherwise the non-empty pages'
  identifier batches, in page order, are each described on their own, and the result is the
  concatenation of the described tasks in that order (or the first failure among the
  describe calls, which ends the run).
\<close>

theorem listTasks_all_pages:
  "fst (listTasks ecs input calls) =
     (case ListTasksPages_reply (svc ecs) input of
        (pages, Some e) \<Rightarrow> Inl (ErrorExit (Remote e) ''Could not list ECS tasks'')
      | (pages, None) \<Rightarrow>
          firstFailureOrAll
            (map (\<lambda>batch. fst (DescribeTasks ecs batch []))
               (filter (\<lambda>batch. batch \<noteq> [])
                  (map (\<lambda>page. StringValueSlice (TaskArns page)) pages))))"
proof (cases "ListTasksPages_reply (svc ecs) input")
  case (Pair pages err)
  show ?thesis
  proof (cases err)
    case None
    with Pair show ?thesis
      by (simp add: listTasks_def andThen_def svc_ListTasksPages_def EachPage_listTasks'
          listTasks_loop_fst ret_def bindE_def split: sum.splits)
  next
    case (Some e)
    with Pair show ?thesis
      by (simp add: listTasks_def andThen_def svc_ListTasksPages_def EachPage_listTasks' abort_def)
  qed
qed

theorem listTasks_all_pages_witness:
  "fst (listTasks example_ecs example_clusterWide []) =
     Inr ([example_task ''1'' ''fargate:web'', example_task ''2'' ''ecs-svc/7'']
          @ [example_task ''3'' ''fargate:web'', example_task ''4'' ''fargate:worker''])"
proof -
  have pages: "ListTasksPages_reply (svc example_ecs) example_clusterWide =
      ([\<lparr>TaskArns = [Some ''task/1'', Some ''task/2'']\<rparr>, \<lparr>TaskArns = []\<rparr>,
        \<lparr>TaskArns = [Some ''task/3'', Some ''task/4'']\<rparr>], None)"
    by (simp add: example_ecs_def)
  show ?thesis
    using listTasks_all_pages [of example_ecs example_clusterWide "[]"]
    by (simp add: pages StringValueSlice_def StringValue_def example_DescribeTasks bindE_def)
qed

text \<open>
  C10. \<open>DescribeTasks\<close> on an empty identifier list returns the empty list and issues no
  call; and every describe call that \<open>listTasks\<close> issues carries at least one identifier.
\<close>

theorem describe_never_on_empty_batch:
  "DescribeTasks ecs [] calls = (Inr [], calls) \<and>
   (\<forall>i. DescribeTasksCall i \<in> set (snd (listTasks ecs input calls)) \<longrightarrow>
        DescribeTasksCall i \<in> set calls \<or> Tasks i \<noteq> [])"
proof (intro conjI allI impI)
  show "DescribeTasks ecs [] calls = (Inr [], calls)" by (simp add: DescribeTasks_def ret_def)
next
  fix i
  assume a: "DescribeTasksCall i \<in> set (snd (listTasks ecs input calls))"
  obtain pages err where p: "ListTasksPages_reply (svc ecs) input = (pages, err)"
    by (cases "ListTasksPages_reply (svc ecs) input")
  let ?batches = "filter (\<lambda>batch. batch \<noteq> []) (map (\<lambda>page. StringValueSlice (TaskArns page)) pages)"
  have ne: "[] \<notin> set ?batches" by simp
  show "DescribeTasksCall i \<in> set calls \<or> Tasks i \<noteq> []"
  proof (cases "err = None \<and> ?batches \<noteq> []")
    case True
    with a p have "DescribeTasksCall i
        \<in> set (snd (listTasks_loop ecs ?batches [] (calls @ [ListTasksPagesCall input])))"
      by (simp add: listTasks_def andThen_def svc_ListTasksPages_def EachPage_listTasks')
    from listTasks_loop_snd [OF ne this] show ?thesis by simp
  next
    case False
    with a p show ?thesis
      by (auto simp: listTasks_def andThen_def svc_ListTasksPages_def EachPage_listTasks'
          abort_def ret_def split: option.splits if_splits)
  qed
qed

theorem describe_never_on_empty_batch_witness:
  "DescribeTasks example_ecs [] [] = (Inr [], []) \<and>
   DescribeTasksCall \<lparr>awsecs_DescribeTasksInput.Cluster = Some ''fargate'',
                      Tasks = [Some ''task/3'', Some ''task/4'']\<rparr>
     \<in> set (snd (listTasks example_ecs example_clusterWide [])) \<and>
   length (snd (listTasks example_ecs example_clusterWide [])) = 3 \<and>
   Tasks \<lparr>awsecs_DescribeTasksInput.Cluster = Some ''fargate'',
          Tasks = [Some ''task/3'', Some ''task/4'']\<rparr> \<noteq> []"
  using describe_never_on_empty_batch [of example_ecs "[]" example_clusterWide]
  by (simp add: example_listTasks)

subsection \<open>Network details (C9)\<close>

text \<open>
  C9, at a task record with no attachment of type \<^verbatim>\<open>ElasticNetworkInterface\<close>, its one
  attachment carrying no type: \<^verbatim>\<open>*attachment.Type\<close> panics, in \<open>determineENIDetails\<close> and
  so in the enrichment of the record.
\<close>

theorem determineENIDetails_untyped_attachment:
  "Some eniAttachmentType \<notin> set (map awsecs_Attachment.Type (Attachments example_untypedAttachment)) \<and>
   determineENIDetails example_untypedAttachment = Inl NilDereference \<and>
   DescribeTasks_each example_ecs example_untypedAttachment = Inl NilDereference"
  by (simp add: example_untypedAttachment_def example_unfold)

text \<open>Where every attachment carries a type, the rest of C9 holds: with none of the
  network interface type the scan finds nothing and the fields stay empty, and the task
  identifier is the last piece of the task's ARN between slashes.\<close>

lemma determineENIDetails_attachments_other:
  "\<forall>a \<in> set attachments. \<exists>ty. awsecs_Attachment.Type a = Some ty \<and> ty \<noteq> eniAttachmentType \<Longrightarrow>
   determineENIDetails_attachments attachments state = Inr state"
  by (induction attachments) (cases state; auto simp: bindE_def deref_def)+

lemma determineENIDetails_typed_without_eni:
  "\<forall>a \<in> set (Attachments t). \<exists>ty. awsecs_Attachment.Type a = Some ty \<and> ty \<noteq> eniAttachmentType \<Longrightarrow>
   determineENIDetails t = Inr (False, [], [])"
  by (simp add: determineENIDetails_def determineENIDetails_attachments_other)

lemma SplitFrom_nonempty: "SplitFrom sep cur s \<noteq> []"
  by (induction s arbitrary: cur) auto

lemma index_last: "xs \<noteq> [] \<Longrightarrow> index xs (int (length xs) - 1) = Inr (last xs)"
  by (cases xs rule: rev_cases) (auto simp: index_def nth_append)

lemma DescribeTasks_each_typed_without_eni:
  assumes "\<forall>a \<in> set (Attachments t). \<exists>ty. awsecs_Attachment.Type a = Some ty \<and> ty \<noteq> eniAttachmentType"
    and "DescribeTasks_each ecs t = Inr task"
  shows "EniId task = [] \<and> SubnetId task = [] \<and>
         TaskId task = last (Split (StringValue (TaskArn t)) (CHR ''/''))"
  using assms(2) index_last [OF SplitFrom_nonempty, of "CHR ''/''" "[]" "StringValue (TaskArn t)"]
  by (auto simp: DescribeTasks_each_def Let_def bindE_def Split_def
      determineENIDetails_typed_without_eni [OF assms(1)] split: sum.splits)

lemma determineENIDetails_example:
  "determineENIDetails
     ((example_remoteTask ''task/6'' ''fargate:web'')
        \<lparr>Attachments :=
           [\<lparr>awsecs_Attachment.Type = Some ''ElasticNetworkInterface'',
             Details = [\<lparr>awsecs_KeyValuePair.Name = Some ''subnetId'', Value = Some ''subnet-9''\<rparr>,
                        \<lparr>awsecs_KeyValuePair.Name = Some ''macAddress'', Value = Some ''0a:1b''\<rparr>,
                        \<lparr>awsecs_KeyValuePair.Name = Some ''networkInterfaceId'',
                         Value = Some ''eni-7''\<rparr>]\<rparr>]\<rparr>) =
   Inr (True, ''eni-7'', ''subnet-9'')"
  by (simp add: determineENIDetails_def example_remoteTask_def bindE_def deref_def
      eniAttachmentType_def detailNetworkInterfaceId_def detailSubnetId_def StringValue_def)

section \<open>Creating a service: theorems\<close>

subsection \<open>Routing rules (C3, C4)\<close>

lemmas SetRules_unfold = SetRules_def SetRules_each_def SplitN2_def index_def bindE_def Let_def
  validRuleTypes_def HasPrefix_def HasSuffix_def ToLower_def lowerByte_def ToUpper_def upperByte_def

text \<open>
  C4, at a rule with no \<^verbatim>\<open>=\<close>: the violation is appended to \<open>msgs\<close>, and then
  \<^verbatim>\<open>splitInputRule[1]\<close> reads past the one element of the slice. The run ends with the
  panic, also when an earlier entry had its own violation: no aggregated error is reported.
\<close>

theorem SetRules_entry_without_separator:
  "SetRules example_bound [''host''] = Inl (IndexOutOfRange 1 1) \<and>
   SetRules example_bound [''src=x'', ''host''] = Inl (IndexOutOfRange 1 1)"
  by (simp add: SetRules_unfold example_bound_def example_operation_def)

text \<open>
  C3 as stated fails: an entry with two \<^verbatim>\<open>=\<close> has not exactly one, and it is accepted,
  the second \<^verbatim>\<open>=\<close> being part of the value (\<^verbatim>\<open>strings.SplitN\<close> with a limit of 2).
\<close>

theorem SetRules_second_separator_accepted:
  "length (filter (\<lambda>c. c = CHR ''='') ''host=a=b'') = 2 \<and>
   SetRules example_bound [''host=a=b''] =
     Inr (example_bound\<lparr>Rules := [\<lparr>Type = ''HOST'', Value = ''a=b''\<rparr>]\<rparr>)"
  by (simp add: SetRules_unfold example_bound_def example_operation_def)

text \<open>The pattern \<^verbatim>\<open>(?i)^host|path$\<close> also lets through a type that only begins with
  \<^verbatim>\<open>host\<close>.\<close>

lemma SetRules_type_prefix_accepted:
  "SetRules example_bound [''hostname=x''] =
     Inr (example_bound\<lparr>Rules := [\<lparr>Type = ''HOSTNAME'', Value = ''x''\<rparr>]\<rparr>)"
  by (simp add: SetRules_unfold example_bound_def example_operation_def)

lemma HasPrefixFold_ToLower: "ToLower s = letters \<Longrightarrow> HasPrefixFold s letters"
  by (induction s arbitrary: letters) (auto simp: ToLower_def)

lemma validRuleTypes_host_path: "ToLower s \<in> {''host'', ''path''} \<Longrightarrow> validRuleTypes s"
  by (auto simp: validRuleTypes_def HasSuffix_def HasPrefixFold_ToLower)

text \<open>The long s stands for an s of the pattern.\<close>

lemma validRuleTypes_long_s: "validRuleTypes [CHR ''h'', CHR ''o'', CHR 0xC5, CHR 0xBF, CHR ''t'']"
  by (simp add: validRuleTypes_def lowerByte_def HasPrefix_def)

text \<open>A type that is neither is refused, with the message of lines 100 to 102.\<close>

lemma SetRules_foreign_type:
  "SetRules example_bound [''host=a'', ''src=x''] =
     Inl (ErrorExit (Errorf ''Invalid rule type src [must be path or host]'' []) ''Invalid rule'')"
  by (simp add: SetRules_unfold example_bound_def example_operation_def)

lemma SetRules_each_wellformed:
  "CHR ''='' \<in> set inputRule \<Longrightarrow> validRuleTypes (takeWhile (\<lambda>c. c \<noteq> CHR ''='') inputRule) \<Longrightarrow>
   SetRules_each inputRule (rules, msgs) =
     Inr (rules @ [\<lparr>Type = ToUpper (takeWhile (\<lambda>c. c \<noteq> CHR ''='') inputRule),
                    Value = tl (dropWhile (\<lambda>c. c \<noteq> CHR ''='') inputRule)\<rparr>], msgs)"
  by (simp add: SetRules_each_def SplitN2_def index_def bindE_def Let_def)

lemma SetRules_each_no_separator:
  "CHR ''='' \<notin> set inputRule \<Longrightarrow> SetRules_each inputRule state = Inl (IndexOutOfRange 1 1)"
  by (cases state) (simp add: SetRules_each_def SplitN2_def index_def bindE_def Let_def)

lemma SetRules_each_msgs:
  "SetRules_each inputRule (rules, msgs) = Inr (rules', msgs') \<Longrightarrow> msgs \<noteq> [] \<Longrightarrow> msgs' \<noteq> []"
  by (auto simp: SetRules_each_def index_def bindE_def Let_def split: if_splits)

lemma SetRules_loop_wellformed:
  "\<forall>inputRule \<in> set inputRules.
      CHR ''='' \<in> set inputRule \<and> validRuleTypes (takeWhile (\<lambda>c. c \<noteq> CHR ''='') inputRule) \<Longrightarrow>
   SetRules_loop inputRules (rules, msgs) =
     Inr (rules @ map (\<lambda>inputRule. \<lparr>Type = ToUpper (takeWhile (\<lambda>c. c \<noteq> CHR ''='') inputRule),
                                    Value = tl (dropWhile (\<lambda>c. c \<noteq> CHR ''='') inputRule)\<rparr>) inputRules,
          msgs)"
  by (induction inputRules arbitrary: rules) (simp_all add: SetRules_each_wellformed bindE_def)

lemma SetRules_loop_no_separator:
  "\<exists>inputRule \<in> set inputRules. CHR ''='' \<notin> set inputRule \<Longrightarrow> \<exists>e. SetRules_loop inputRules state = Inl e"
proof (induction inputRules arbitrary: state)
  case Nil
  then show ?case by simp
next
  case (Cons r rs)
  show ?case
  proof (cases "SetRules_each r state")
    case (Inl e)
    then show ?thesis by (simp add: bindE_def)
  next
    case (Inr state')
    with SetRules_each_no_separator [of r state] have "CHR ''='' \<in> set r" by auto
    with Cons.prems have "\<exists>inputRule \<in> set rs. CHR ''='' \<notin> set inputRule" by auto
    from Cons.IH [OF this, of state'] Inr show ?thesis by (simp add: bindE_def)
  qed
qed

lemma SetRules_loop_msgs:
  "SetRules_loop inputRules (rules, msgs) = Inr (rules', msgs') \<Longrightarrow> msgs \<noteq> [] \<Longrightarrow> msgs' \<noteq> []"
proof (induction inputRules arbitrary: rules msgs)
  case Nil
  then show ?case by simp
next
  case (Cons r rs)
  from Cons.prems(1) obtain rules1 msgs1 where
    e: "SetRules_each r (rules, msgs) = Inr (rules1, msgs1)"
    and l: "SetRules_loop rs (rules1, msgs1) = Inr (rules', msgs')"
    by (cases "SetRules_each r (rules, msgs)") (auto simp: bindE_def)
  from SetRules_each_msgs [OF e Cons.prems(2)] Cons.IH [OF l] show ?case by simp
qed

lemma SetRules_each_type:
  "SetRules_each inputRule (rules, msgs) = Inr (rules', msgs') \<Longrightarrow>
   \<not> validRuleTypes (takeWhile (\<lambda>c. c \<noteq> CHR ''='') inputRule) \<Longrightarrow> msgs' \<noteq> []"
  by (auto simp: SetRules_each_def SplitN2_def index_def bindE_def Let_def split: if_splits)

lemma SetRules_loop_type:
  "SetRules_loop inputRules (rules, msgs) = Inr (rules', msgs') \<Longrightarrow>
   \<exists>inputRule \<in> set inputRules. \<not> validRuleTypes (takeWhile (\<lambda>c. c \<noteq> CHR ''='') inputRule) \<Longrightarrow>
   msgs' \<noteq> []"
proof (induction inputRules arbitrary: rules msgs)
  case Nil
  then show ?case by simp
next
  case (Cons r rs)
  from Cons.prems(1) obtain rules1 msgs1 where
    e: "SetRules_each r (rules, msgs) = Inr (rules1, msgs1)"
    and l: "SetRules_loop rs (rules1, msgs1) = Inr (rules', msgs')"
    by (cases "SetRules_each r (rules, msgs)") (auto simp: bindE_def)
  show ?case
  proof (cases "validRuleTypes (takeWhile (\<lambda>c. c \<noteq> CHR ''='') r)")
    case True
    with Cons.prems(2)
    have "\<exists>inputRule \<in> set rs. \<not> validRuleTypes (takeWhile (\<lambda>c. c \<noteq> CHR ''='') inputRule)"
      by auto
    from Cons.IH [OF l this] show ?thesis .
  next
    case False
    from SetRules_each_type [OF e False] SetRules_loop_msgs [OF l] show ?thesis by simp
  qed
qed

text \<open>
  C3, amended. \<open>SetRules\<close> sets the rules when the list is empty or a load balancer is
  configured, and every entry holds a \<^verbatim>\<open>=\<close> with \<^verbatim>\<open>host\<close> or \<^verbatim>\<open>path\<close>, in any case
  of the letters, before the first one: the type of a rule is that text in upper case, its
  value everything after the first \<^verbatim>\<open>=\<close>. \<open>SetRules\<close> does not set the rules, and the run
  ends, when a non-empty list comes with no load balancer configured, or an entry holds no
  \<^verbatim>\<open>=\<close>, or the type of an entry neither begins with \<^verbatim>\<open>host\<close> nor ends with
  \<^verbatim>\<open>path\<close>, in any case of the letters. (What becomes of a type that only begins with
  \<^verbatim>\<open>host\<close> or only ends with \<^verbatim>\<open>path\<close> is left open.)
\<close>

theorem SetRules_split_at_first_separator:
  "((inputRules = [] \<or> LoadBalancerArn operation \<noteq> []) \<and>
    (\<forall>inputRule \<in> set inputRules.
        CHR ''='' \<in> set inputRule \<and>
        ToLower (takeWhile (\<lambda>c. c \<noteq> CHR ''='') inputRule) \<in> {''host'', ''path''})
    \<longrightarrow> SetRules operation inputRules =
          Inr (operation\<lparr>Rules :=
                 map (\<lambda>inputRule. \<lparr>Type = ToUpper (takeWhile (\<lambda>c. c \<noteq> CHR ''='') inputRule),
                                   Value = tl (dropWhile (\<lambda>c. c \<noteq> CHR ''='') inputRule)\<rparr>)
                   inputRules\<rparr>))
   \<and> ((inputRules \<noteq> [] \<and> LoadBalancerArn operation = []) \<or>
       (\<exists>inputRule \<in> set inputRules. CHR ''='' \<notin> set inputRule) \<or>
       (\<exists>inputRule \<in> set inputRules.
           \<not> HasPrefixFold (takeWhile (\<lambda>c. c \<noteq> CHR ''='') inputRule) ''host'' \<and>
           \<not> HasSuffix (ToLower (takeWhile (\<lambda>c. c \<noteq> CHR ''='') inputRule)) ''path'')
    \<longrightarrow> (\<exists>e. SetRules operation inputRules = Inl e))"
proof (intro conjI impI)
  assume a: "(inputRules = [] \<or> LoadBalancerArn operation \<noteq> []) \<and>
    (\<forall>inputRule \<in> set inputRules.
        CHR ''='' \<in> set inputRule \<and>
        ToLower (takeWhile (\<lambda>c. c \<noteq> CHR ''='') inputRule) \<in> {''host'', ''path''})"
  then have "\<forall>inputRule \<in> set inputRules.
      CHR ''='' \<in> set inputRule \<and> validRuleTypes (takeWhile (\<lambda>c. c \<noteq> CHR ''='') inputRule)"
    using validRuleTypes_host_path by blast
  from SetRules_loop_wellformed [OF this, of "[]" "[]"] a
  show "SetRules operation inputRules =
          Inr (operation\<lparr>Rules :=
                 map (\<lambda>inputRule. \<lparr>Type = ToUpper (takeWhile (\<lambda>c. c \<noteq> CHR ''='') inputRule),
                                   Value = tl (dropWhile (\<lambda>c. c \<noteq> CHR ''='') inputRule)\<rparr>)
                   inputRules\<rparr>)"
    by (auto simp: SetRules_def bindE_def)
next
  assume a: "(inputRules \<noteq> [] \<and> LoadBalancerArn operation = []) \<or>
       (\<exists>inputRule \<in> set inputRules. CHR ''='' \<notin> set inputRule) \<or>
       (\<exists>inputRule \<in> set inputRules.
           \<not> HasPrefixFold (takeWhile (\<lambda>c. c \<noteq> CHR ''='') inputRule) ''host'' \<and>
           \<not> HasSuffix (ToLower (takeWhile (\<lambda>c. c \<noteq> CHR ''='') inputRule)) ''path'')"
  let ?msgs = "if length inputRules > 0 \<and> LoadBalancerArn operation = []
               then [''lb must be configured if rules are specified''] else []"
  show "\<exists>e. SetRules operation inputRules = Inl e"
  proof (cases "SetRules_loop inputRules ([], ?msgs)")
    case (Inl e)
    then show ?thesis by (simp add: SetRules_def bindE_def)
  next
    case (Inr state)
    obtain rules' msgs' where state: "state = (rules', msgs')" by (cases state)
    with Inr have loop: "SetRules_loop inputRules ([], ?msgs) = Inr (rules', msgs')" by simp
    from SetRules_loop_no_separator [of inputRules "([], ?msgs)"] loop
    have sep: "\<not> (\<exists>inputRule \<in> set inputRules. CHR ''='' \<notin> set inputRule)" by auto
    have "msgs' \<noteq> []"
    proof (cases "inputRules \<noteq> [] \<and> LoadBalancerArn operation = []")
      case True
      with loop SetRules_loop_msgs [of inputRules "[]" ?msgs rules' msgs'] show ?thesis by simp
    next
      case False
      with a sep have "\<exists>inputRule \<in> set inputRules.
          \<not> validRuleTypes (takeWhile (\<lambda>c. c \<noteq> CHR ''='') inputRule)"
        by (auto simp: validRuleTypes_def)
      from SetRules_loop_type [OF loop this] show ?thesis .
    qed
    with loop show ?thesis by (simp add: SetRules_def bindE_def)
  qed
qed

theorem SetRules_split_at_first_separator_witness:
  "SetRules example_bound [''host=api.example.com'', ''Path=/api/*?a=b''] =
     Inr (example_bound\<lparr>Rules := [\<lparr>Type = ''HOST'', Value = ''api.example.com''\<rparr>,
                                  \<lparr>Type = ''PATH'', Value = ''/api/*?a=b''\<rparr>]\<rparr>)
   \<and> (\<exists>e. SetRules example_operation [''host=api.example.com''] = Inl e)
   \<and> (\<exists>e. SetRules example_bound [''host''] = Inl e)
   \<and> (\<exists>e. SetRules example_bound [''host=a'', ''src=x''] = Inl e)"
proof -
  have lb: "LoadBalancerArn example_bound = ''arn:alb''" "LoadBalancerArn example_operation = []"
    by (simp_all add: example_bound_def example_operation_def)
  have low: "ToLower ''host'' = ''host''" "ToLower ''Path'' = ''path''"
    "ToUpper ''host'' = ''HOST''" "ToUpper ''Path'' = ''PATH''" "ToLower ''src'' = ''src''"
    by (simp_all add: ToLower_def lowerByte_def ToUpper_def upperByte_def)
  have src: "\<not> HasPrefixFold ''src'' ''host''" "\<not> HasSuffix ''src'' ''path''"
    by (simp_all add: lowerByte_def HasSuffix_def)
  show ?thesis
    using SetRules_split_at_first_separator [of "[''host=api.example.com'', ''Path=/api/*?a=b'']" example_bound]
      SetRules_split_at_first_separator [of "[''host=api.example.com'']" example_operation]
      SetRules_split_at_first_separator [of "[''host'']" example_bound]
      SetRules_split_at_first_separator [of "[''host=a'', ''src=x'']" example_bound]
    by (simp add: lb low src)
qed

subsection \<open>The port (C5)\<close>

text \<open>
  C5. Whatever \<^verbatim>\<open>inflatePort\<close> reads from the input, \<open>SetPort\<close> accepts exactly when the
  protocol read is TCP, HTTP or HTTPS in any case of the letters and the port read is within
  1 and 65535. Otherwise the run ends with one error whose text joins the message of every
  rule violated: both messages, the protocol's first, when both are violated.
\<close>

theorem SetPort_reports_every_violation:
  "SetPort inflatePort operation inputPort =
     (let port = inflatePort inputPort;
          protocolValid = (ToUpper (Protocol port) \<in> {''TCP'', ''HTTP'', ''HTTPS''});
          portValid = (1 \<le> Port.Port port \<and> Port.Port port \<le> 65535);
          protocolMsg = ''Invalid protocol '' @ Protocol port @ '' [specify TCP, HTTP, or HTTPS]'';
          portMsg = ''Invalid port '' @ formatInt (Port.Port port) @ '' [specify within 1 - 65535]''
      in if protocolValid \<and> portValid then Inr (operation\<lparr>Port := port\<rparr>)
         else Inl (ErrorExit
                     (Errorf (if portValid then protocolMsg
                              else if protocolValid then portMsg
                              else protocolMsg @ '', '' @ portMsg) [])
                     ''Invalid command line flags''))"
  by (auto simp: SetPort_def validProtocols_def Let_def)

lemma formatInt_examples: "formatInt 70000 = ''70000''" "formatInt 0 = ''0''"
  by (simp_all add: formatInt_def)

theorem SetPort_reports_every_violation_witness:
  "SetPort example_inflatePort example_operation ''http:8080'' =
     Inr (example_operation\<lparr>Port := \<lparr>Port.Port = 8080, Protocol = ''HTTP''\<rparr>\<rparr>) \<and>
   SetPort example_inflatePort example_operation ''ftp:70000'' =
     Inl (ErrorExit
            (Errorf ''Invalid protocol FTP [specify TCP, HTTP, or HTTPS], Invalid port 70000 [specify within 1 - 65535]'' [])
            ''Invalid command line flags'') \<and>
   SetPort example_inflatePort example_operation ''https:0'' =
     Inl (ErrorExit (Errorf ''Invalid port 0 [specify within 1 - 65535]'' [])
            ''Invalid command line flags'')"
  using SetPort_reports_every_violation [of example_inflatePort example_operation "''http:8080''"]
    SetPort_reports_every_violation [of example_inflatePort example_operation "''ftp:70000''"]
    SetPort_reports_every_violation [of example_inflatePort example_operation "''https:0''"]
  by (simp add: example_inflatePort_def Let_def ToUpper_def upperByte_def formatInt_examples)

subsection \<open>The load balancer (C6)\<close>

text \<open>
  C6 as stated fails: the message of the failure names the load balancer and the protocol
  that its kind requires; the configured protocol (here HTTP) is in no part of it.
\<close>

theorem SetLoadBalancer_message_without_protocol:
  "fst (SetLoadBalancer example_operation ''my-nlb'' example_platform) =
     Inl (ErrorExit (Errorf ''network load balancer %s only supports TCP'' [''my-nlb''])
            ''Invalid load balancer and protocol'') \<and>
   Protocol (Port example_operation) = ''HTTP'' \<and>
   \<not> Contains ''network load balancer %s only supports TCP'' ''HTTP'' \<and>
   \<not> Contains ''my-nlb'' ''HTTP'' \<and>
   \<not> Contains ''Invalid load balancer and protocol'' ''HTTP''"
  by (simp add: SetLoadBalancer_def andThen_def remote_def abort_def ret_def example_operation_def
      example_elbv2_def example_platform_def HasPrefix_def)

text \<open>
  C6, amended. When the describe call returns the load balancer, \<open>SetLoadBalancer\<close> fails
  exactly when its kind is \<^verbatim>\<open>network\<close> and the configured protocol is not TCP, or its
  kind is \<^verbatim>\<open>application\<close> and the configured protocol is neither HTTP nor HTTPS; the
  error names the load balancer and the protocols that its kind supports. Otherwise the
  operation gets the name and the ARN of the load balancer.
\<close>

theorem SetLoadBalancer_protocol_of_kind:
  "DescribeLoadBalancer_reply (Elbv2 operation) lb = Inr loadBalancer \<longrightarrow>
   fst (SetLoadBalancer operation lb s) =
     (if LoadBalancer.Type loadBalancer = ''network'' \<and> Protocol (Port operation) \<noteq> ''TCP''
      then Inl (ErrorExit (Errorf ''network load balancer %s only supports TCP'' [lb])
                  ''Invalid load balancer and protocol'')
      else if LoadBalancer.Type loadBalancer = ''application'' \<and>
              Protocol (Port operation) \<noteq> ''HTTP'' \<and> Protocol (Port operation) \<noteq> ''HTTPS''
      then Inl (ErrorExit (Errorf ''application load balancer %s only supports HTTP or HTTPS'' [lb])
                  ''Invalid load balancer and protocol'')
      else Inr (operation\<lparr>LoadBalancerName := lb, LoadBalancerArn := Arn loadBalancer\<rparr>))"
  by (simp add: SetLoadBalancer_def andThen_def remote_def abort_def ret_def)

theorem SetLoadBalancer_protocol_of_kind_witness:
  "fst (SetLoadBalancer example_operation ''my-alb'' example_platform) = Inr example_bound \<and>
   fst (SetLoadBalancer example_operation ''my-nlb'' example_platform) =
     Inl (ErrorExit (Errorf ''network load balancer %s only supports TCP'' [''my-nlb''])
            ''Invalid load balancer and protocol'') \<and>
   fst (SetLoadBalancer (example_operation\<lparr>Port := \<lparr>Port.Port = 1935, Protocol = ''TCP''\<rparr>\<rparr>)
          ''my-alb'' example_platform) =
     Inl (ErrorExit (Errorf ''application load balancer %s only supports HTTP or HTTPS'' [''my-alb''])
            ''Invalid load balancer and protocol'')"
proof -
  have alb: "DescribeLoadBalancer_reply (Elbv2 example_operation) ''my-alb'' =
      Inr \<lparr>Arn = ''arn:alb'', Type = ''application''\<rparr>"
    and nlb: "DescribeLoadBalancer_reply (Elbv2 example_operation) ''my-nlb'' =
      Inr \<lparr>Arn = ''arn:nlb'', Type = ''network''\<rparr>"
    by (simp_all add: example_operation_def example_elbv2_def)
  from alb have alb': "DescribeLoadBalancer_reply
        (Elbv2 (example_operation\<lparr>Port := \<lparr>Port.Port = 1935, Protocol = ''TCP''\<rparr>\<rparr>)) ''my-alb'' =
      Inr \<lparr>Arn = ''arn:alb'', Type = ''application''\<rparr>"
    by simp
  have p: "Protocol (Port example_operation) = ''HTTP''" by (simp add: example_operation_def)
  show ?thesis
    using SetLoadBalancer_protocol_of_kind [of example_operation "''my-alb''" _ example_platform] alb
      SetLoadBalancer_protocol_of_kind [of example_operation "''my-nlb''" _ example_platform] nlb
      SetLoadBalancer_protocol_of_kind [of "example_operation\<lparr>Port := \<lparr>Port.Port = 1935, Protocol = ''TCP''\<rparr>\<rparr>" "''my-alb''" _ example_platform] alb'
    by (simp add: p example_bound_def)
qed

subsection \<open>The image repository (C7)\<close>

text \<open>
  C7. When the acquisition of the repository of a service name has returned a reference, a
  second acquisition from the state that the first one left returns the same reference: it
  finds the repository, asks for its reference and creates nothing, so it cannot fail on a
  repository that exists already, and it leaves the registry as it was.
\<close>

theorem repository_acquisition_idempotent:
  "createService_repository sess serviceName s = (Inr repositoryUri, s') \<longrightarrow>
   fst (createService_repository sess serviceName s') = Inr repositoryUri \<and>
   repositories (snd (createService_repository sess serviceName s')) = repositories s' \<and>
   issued (snd (createService_repository sess serviceName s')) =
     issued s' @ [Ecr_IsRepositoryCreated serviceName, Ecr_GetRepositoryUri serviceName]"
  by (auto simp: createService_repository_def andThen_def IsRepositoryCreated_def
      GetRepositoryUri_def CreateRepository_def remote_def split: option.splits if_splits)

theorem repository_acquisition_idempotent_witness:
  "createService_repository example_session ''web'' example_platform =
     (Inr ''1.dkr.ecr.us-east-1.amazonaws.com/web'',
      \<lparr>repositories = [''web'' \<mapsto> ''1.dkr.ecr.us-east-1.amazonaws.com/web''],
       issued = [Ecr_IsRepositoryCreated ''web'', Ecr_CreateRepository ''web'']\<rparr>) \<and>
   fst (createService_repository example_session ''web''
          \<lparr>repositories = [''web'' \<mapsto> ''1.dkr.ecr.us-east-1.amazonaws.com/web''],
           issued = [Ecr_IsRepositoryCreated ''web'', Ecr_CreateRepository ''web'']\<rparr>) =
     Inr ''1.dkr.ecr.us-east-1.amazonaws.com/web''"
proof -
  have first: "createService_repository example_session ''web'' example_platform =
     (Inr ''1.dkr.ecr.us-east-1.amazonaws.com/web'',
      \<lparr>repositories = [''web'' \<mapsto> ''1.dkr.ecr.us-east-1.amazonaws.com/web''],
       issued = [Ecr_IsRepositoryCreated ''web'', Ecr_CreateRepository ''web'']\<rparr>)"
    by (simp add: createService_repository_def andThen_def IsRepositoryCreated_def
        CreateRepository_def remote_def example_session_def example_platform_def)
  with repository_acquisition_idempotent [of example_session "''web''" example_platform]
  show ?thesis by simp
qed

subsection \<open>The deployment run (C1)\<close>

lemma andThen_Inr:
  "andThen m f s = (Inr y, s') \<Longrightarrow> \<exists>x s1. m s = (Inr x, s1) \<and> f x s1 = (Inr y, s')"
  by (auto simp: andThen_def split: prod.splits sum.splits)

lemma remote_Inr: "remote c reply s = (Inr x, s') \<Longrightarrow> reply = Inr x \<and> issued s' = issued s @ [c]"
  by (auto simp: remote_def)

lemma andThen_keeps:
  assumes "\<And>s. filter P (issued (snd (m s))) = filter P (issued s)"
    and "\<And>x s s'. m s = (Inr x, s') \<Longrightarrow> Q x"
    and "\<And>x s. Q x \<Longrightarrow> filter P (issued (snd (f x s))) = filter P (issued s)"
  shows "filter P (issued (snd (andThen m f s))) = filter P (issued s)"
proof (cases "m s")
  case (Pair r s1)
  from assms(1) [of s] Pair have k: "filter P (issued s1) = filter P (issued s)" by simp
  show ?thesis
  proof (cases r)
    case (Inl e)
    with Pair k show ?thesis by (simp add: andThen_def)
  next
    case (Inr x)
    with Pair assms(2) have "Q x" by blast
    from assms(3) [OF this, of s1] Pair Inr k show ?thesis by (simp add: andThen_def)
  qed
qed

lemma remote_keeps: "\<not> P c \<Longrightarrow> filter P (issued (snd (remote c reply s))) = filter P (issued s)"
  by (simp add: remote_def)

lemma ret_keeps: "filter P (issued (snd (ret x s))) = filter P (issued s)"
  by (simp add: ret_def)

lemma createService_repository_keeps:
  "filter isWiring (issued (snd (createService_repository sess name s))) = filter isWiring (issued s)"
  "filter isImageBuild (issued (snd (createService_repository sess name s))) = filter isImageBuild (issued s)"
  by (auto simp: createService_repository_def andThen_def IsRepositoryCreated_def
      GetRepositoryUri_def CreateRepository_def remote_def split: option.splits)

lemma createService_image_keeps:
  "filter isWiring (issued (snd (createService_image sess repository operation s))) =
   filter isWiring (issued s)"
  by (auto simp: createService_image_def andThen_def remote_def ret_def
      split: sum.splits prod.splits)

lemma createService_image_skipped:
  "Image operation \<noteq> [] \<Longrightarrow> createService_image sess repository operation s = (Inr operation, s)"
  by (simp add: createService_image_def ret_def)

lemma createService_image_operation:
  "createService_image sess repository operation s = (Inr operation', s') \<Longrightarrow>
   \<exists>image. operation' = operation\<lparr>Image := image\<rparr>"
  by (auto simp: createService_image_def andThen_def remote_def ret_def
      split: sum.splits prod.splits if_splits intro: exI [of _ "Image operation"])

lemma createService_image_built:
  "Image operation = [] \<Longrightarrow>
   createService_image sess repository operation s = (Inr operation', s') \<Longrightarrow>
   \<exists>username password tag.
     GetUsernameAndPassword_reply sess = Inr (username, password) \<and>
     (if IsCwdGitRepo_reply sess then GetShortSha_reply sess = Inr tag
      else tag = GenerateTag_reply sess) \<and>
     Login_reply sess repository username password = Inr () \<and>
     Build_reply sess repository tag = Inr () \<and>
     Push_reply sess repository tag = Inr () \<and>
     issued s' = issued s @
       [Ecr_GetUsernameAndPassword, Git_IsCwdGitRepo,
        if IsCwdGitRepo_reply sess then Git_GetShortSha else Docker_GenerateTag,
        Repository_Login repository username password,
        Repository_Build repository tag,
        Repository_Push repository tag] \<and>
     operation' = operation\<lparr>Image := UriFor sess repository tag\<rparr>"
  by (auto simp: createService_image_def andThen_def remote_def ret_def
      split: sum.splits prod.splits if_splits)

lemma createService_rules_keeps:
  "filter isImageBuild (issued (snd (createService_rules elbv2 lbArn tgArn rules s))) =
   filter isImageBuild (issued s)"
  by (induction rules arbitrary: s)
    (auto simp: andThen_def remote_def ret_def split: sum.splits prod.splits)

lemma createService_rules_issued:
  "createService_rules elbv2 lbArn tgArn rules s = (Inr (), s') \<Longrightarrow>
   issued s' = issued s @ map (Elbv2_AddRule lbArn tgArn) rules"
proof (induction rules arbitrary: s)
  case Nil
  then show ?case by (simp add: ret_def)
next
  case (Cons r rs)
  from Cons.prems have "andThen (remote (Elbv2_AddRule lbArn tgArn r) (AddRule_reply elbv2 lbArn tgArn r))
       (\<lambda>_. createService_rules elbv2 lbArn tgArn rs) s = (Inr (), s')" by simp
  from andThen_Inr [OF this] obtain x s1 where
    1: "remote (Elbv2_AddRule lbArn tgArn r) (AddRule_reply elbv2 lbArn tgArn r) s = (Inr x, s1)"
    and 2: "createService_rules elbv2 lbArn tgArn rs s1 = (Inr (), s')" by blast
  from remote_Inr [OF 1] Cons.IH [OF 2] show ?case by simp
qed

lemma createService_loadBalancer_keeps:
  "filter isImageBuild (issued (snd (createService_loadBalancer sess operation s))) =
   filter isImageBuild (issued s)"
proof (cases "LoadBalancerArn operation = []")
  case True
  then show ?thesis by (simp add: createService_loadBalancer_def ret_def)
next
  case False
  then show ?thesis
    unfolding createService_loadBalancer_def Let_def
    by (auto intro!: andThen_keeps [where Q = "\<lambda>_. True"] remote_keeps ret_keeps
        createService_rules_keeps)
qed

lemma createService_loadBalancer_wired:
  assumes "LoadBalancerArn operation \<noteq> []"
    and "createService_loadBalancer sess operation s = (Inr targetGroupArn, s')"
  shows "\<exists>vpcId. GetDefaultVpcId_reply sess = Inr vpcId \<and>
           CreateTargetGroup_reply (Elbv2 operation)
             \<lparr>CreateTargetGroupInput.Name = LoadBalancerName operation @ ''-'' @ ServiceName operation,
              Port = Port.Port (Port operation), Protocol = Protocol (Port operation),
              VpcId = vpcId\<rparr> = Inr targetGroupArn \<and>
           issued s' = issued s @
             [Ec2_GetDefaultVpcId,
              Elbv2_CreateTargetGroup
                \<lparr>CreateTargetGroupInput.Name = LoadBalancerName operation @ ''-'' @ ServiceName operation,
                 Port = Port.Port (Port operation), Protocol = Protocol (Port operation),
                 VpcId = vpcId\<rparr>] @
             (if Rules operation \<noteq> []
              then map (Elbv2_AddRule (LoadBalancerArn operation) targetGroupArn) (Rules operation)
              else [Elbv2_ModifyLoadBalancerDefaultAction (LoadBalancerArn operation) targetGroupArn])"
proof -
  let ?input = "\<lambda>vpcId. \<lparr>CreateTargetGroupInput.Name = LoadBalancerName operation @ ''-'' @ ServiceName operation,
              Port = Port.Port (Port operation), Protocol = Protocol (Port operation),
              VpcId = vpcId\<rparr>"
  let ?last = "\<lambda>tg. if length (Rules operation) > 0
                 then createService_rules (Elbv2 operation) (LoadBalancerArn operation)
                        tg (Rules operation)
                 else remote (Elbv2_ModifyLoadBalancerDefaultAction (LoadBalancerArn operation) tg)
                        (ModifyLoadBalancerDefaultAction_reply (Elbv2 operation)
                           (LoadBalancerArn operation) tg)"
  from assms have "andThen (remote Ec2_GetDefaultVpcId (GetDefaultVpcId_reply sess)) (\<lambda>vpcId.
      andThen (remote (Elbv2_CreateTargetGroup (?input vpcId))
                         (CreateTargetGroup_reply (Elbv2 operation) (?input vpcId))) (\<lambda>tg.
        andThen (?last tg) (\<lambda>_. ret tg))) s = (Inr targetGroupArn, s')"
    by (simp add: createService_loadBalancer_def Let_def)
  from andThen_Inr [OF this] obtain vpcId s1 where
    1: "remote Ec2_GetDefaultVpcId (GetDefaultVpcId_reply sess) s = (Inr vpcId, s1)"
    and "andThen (remote (Elbv2_CreateTargetGroup (?input vpcId))
                         (CreateTargetGroup_reply (Elbv2 operation) (?input vpcId))) (\<lambda>tg.
        andThen (?last tg) (\<lambda>_. ret tg)) s1 = (Inr targetGroupArn, s')" by blast
  from andThen_Inr [OF this(2)] obtain tg s2 where
    2: "remote (Elbv2_CreateTargetGroup (?input vpcId))
                         (CreateTargetGroup_reply (Elbv2 operation) (?input vpcId)) s1 = (Inr tg, s2)"
    and "andThen (?last tg) (\<lambda>_. ret tg) s2 = (Inr targetGroupArn, s')" by blast
  from andThen_Inr [OF this(2)] obtain u s3 where
    3: "?last tg s2 = (Inr u, s3)" and 4: "ret tg s3 = (Inr targetGroupArn, s')" by blast
  from 4 have tg: "tg = targetGroupArn" and s3: "s3 = s'" by (simp_all add: ret_def)
  have "issued s3 = issued s2 @
      (if Rules operation \<noteq> []
       then map (Elbv2_AddRule (LoadBalancerArn operation) tg) (Rules operation)
       else [Elbv2_ModifyLoadBalancerDefaultAction (LoadBalancerArn operation) tg])"
  proof (cases "Rules operation = []")
    case True
    with 3 remote_Inr show ?thesis by fastforce
  next
    case False
    with 3 createService_rules_issued [of "Elbv2 operation" "LoadBalancerArn operation" tg "Rules operation" s2 s3]
    show ?thesis by simp
  qed
  with remote_Inr [OF 1] remote_Inr [OF 2] tg s3 show ?thesis by simp
qed

lemma createService_loadBalancer_skipped:
  "LoadBalancerArn operation = [] \<Longrightarrow> createService_loadBalancer sess operation s = (Inr [], s)"
  by (simp add: createService_loadBalancer_def ret_def)


lemma andThen_InrE:
  assumes "andThen m f s = (Inr y, s')"
  obtains x s1 where "m s = (Inr x, s1)" and "f x s1 = (Inr y, s')"
  using andThen_Inr [OF assms] by blast

lemma createService_steps:
  assumes "createService sess operation s = (Inr operation', s')"
  shows "\<exists>repositoryUri s1 s4 s5 targetGroupArn s6.
      createService_repository sess (ServiceName operation) s = (Inr repositoryUri, s1) \<and>
      filter isWiring (issued s4) = filter isWiring (issued s1) \<and>
      filter isImageBuild (issued s4) = filter isImageBuild (issued s1) \<and>
      createService_image sess repositoryUri operation s4 = (Inr operation', s5) \<and>
      createService_loadBalancer sess operation' s5 = (Inr targetGroupArn, s6) \<and>
      filter isWiring (issued s') = filter isWiring (issued s6) \<and>
      filter isImageBuild (issued s') = filter isImageBuild (issued s6)"
  using assms unfolding createService_def Let_def
  apply (elim andThen_InrE)
  subgoal for repositoryUri s1 subnetIds s2 role s3 logGroupName s4 operation5 s5 targetGroupArn s6
      taskDefinitionArn s7 u s8
    apply (rule exI [of _ repositoryUri], rule exI [of _ s1], rule exI [of _ s4],
        rule exI [of _ s5], rule exI [of _ targetGroupArn], rule exI [of _ s6])
    apply (auto simp: remote_def ret_def)
    done
  done


lemma createService_image_LoadBalancerArn:
  "createService_image sess repository operation s = (Inr operation', s') \<Longrightarrow>
   LoadBalancerArn operation' = LoadBalancerArn operation \<and>
   LoadBalancerName operation' = LoadBalancerName operation \<and>
   ServiceName operation' = ServiceName operation \<and>
   Port operation' = Port operation \<and>
   Rules operation' = Rules operation \<and>
   Elbv2 operation' = Elbv2 operation"
  using createService_image_operation [of sess repository operation s operation' s'] by auto

lemma createService_not_wired:
  assumes "LoadBalancerArn operation = []"
  shows "filter isWiring (issued (snd (createService sess operation s))) = filter isWiring (issued s)"
  unfolding createService_def Let_def
  apply (rule andThen_keeps [where Q = "\<lambda>_. True"])
    apply (rule createService_repository_keeps)
   apply simp
  apply (rule andThen_keeps [where Q = "\<lambda>_. True"])
    apply (simp add: remote_keeps)
   apply simp
  apply (rule andThen_keeps [where Q = "\<lambda>_. True"])
    apply (simp add: remote_keeps)
   apply simp
  apply (rule andThen_keeps [where Q = "\<lambda>_. True"])
    apply (simp add: remote_keeps)
   apply simp
  apply (rule andThen_keeps [where Q = "\<lambda>x. LoadBalancerArn x = []"])
    apply (rule createService_image_keeps)
   apply (simp add: createService_image_LoadBalancerArn assms)
  apply (rule andThen_keeps [where Q = "\<lambda>_. True"])
    apply (simp add: createService_loadBalancer_skipped)
   apply simp
  apply (rule andThen_keeps [where Q = "\<lambda>_. True"])
    apply (simp add: remote_keeps)
   apply simp
  apply (rule andThen_keeps [where Q = "\<lambda>_. True"])
    apply (simp add: remote_keeps)
   apply simp
  apply (rule ret_keeps)
  done

lemma createService_not_built:
  assumes "Image operation \<noteq> []"
  shows "filter isImageBuild (issued (snd (createService sess operation s))) =
         filter isImageBuild (issued s)"
  unfolding createService_def Let_def
  apply (rule andThen_keeps [where Q = "\<lambda>_. True"])
    apply (rule createService_repository_keeps)
   apply simp
  apply (rule andThen_keeps [where Q = "\<lambda>_. True"])
    apply (simp add: remote_keeps)
   apply simp
  apply (rule andThen_keeps [where Q = "\<lambda>_. True"])
    apply (simp add: remote_keeps)
   apply simp
  apply (rule andThen_keeps [where Q = "\<lambda>_. True"])
    apply (simp add: remote_keeps)
   apply simp
  apply (rule andThen_keeps [where Q = "\<lambda>_. True"])
    apply (simp add: createService_image_skipped assms)
   apply simp
  apply (rule andThen_keeps [where Q = "\<lambda>_. True"])
    apply (rule createService_loadBalancer_keeps)
   apply simp
  apply (rule andThen_keeps [where Q = "\<lambda>_. True"])
    apply (simp add: remote_keeps)
   apply simp
  apply (rule andThen_keeps [where Q = "\<lambda>_. True"])
    apply (simp add: remote_keeps)
   apply simp
  apply (rule ret_keeps)
  done

text \<open>
  C1. In a run of \<open>createService\<close> that starts with no call issued:
  with no load balancer configured, no call of the wiring is issued, however the run ends;
  with an image given, no call of the build is issued, however the run ends;
  and when the run completes, then with a load balancer configured the calls of the wiring
  are the lookup of the network, one target group named by load balancer and service with
  the port and protocol of the operation, and then one \<open>AddRule\<close> per rule, in order, and
  no change of the default action when there are rules, or the one change of the default
  action to the new target group when there are none; with no image given the calls of the
  build are the request for the credentials, the question whether the directory is under
  git, the short revision or else a generated tag, and the login, the build and the push of
  that tag on the repository of the service, and the operation gets the reference of what
  was pushed as its image; and with an image given the operation is left as it was.
\<close>

theorem createService_wiring_and_build:
  "issued s = [] \<longrightarrow>
     (LoadBalancerArn operation = [] \<longrightarrow>
        filter isWiring (issued (snd (createService sess operation s))) = []) \<and>
     (Image operation \<noteq> [] \<longrightarrow>
        filter isImageBuild (issued (snd (createService sess operation s))) = []) \<and>
     (createService sess operation s = (Inr operation', s') \<longrightarrow>
        (LoadBalancerArn operation \<noteq> [] \<longrightarrow>
           (\<exists>vpcId targetGroupArn.
              GetDefaultVpcId_reply sess = Inr vpcId \<and>
              CreateTargetGroup_reply (Elbv2 operation)
                \<lparr>CreateTargetGroupInput.Name =
                   LoadBalancerName operation @ ''-'' @ ServiceName operation,
                 Port = Port.Port (Port operation), Protocol = Protocol (Port operation),
                 VpcId = vpcId\<rparr> = Inr targetGroupArn \<and>
              filter isWiring (issued s') =
                [Ec2_GetDefaultVpcId,
                 Elbv2_CreateTargetGroup
                   \<lparr>CreateTargetGroupInput.Name =
                      LoadBalancerName operation @ ''-'' @ ServiceName operation,
                    Port = Port.Port (Port operation), Protocol = Protocol (Port operation),
                    VpcId = vpcId\<rparr>] @
                (if Rules operation \<noteq> []
                 then map (Elbv2_AddRule (LoadBalancerArn operation) targetGroupArn)
                        (Rules operation)
                 else [Elbv2_ModifyLoadBalancerDefaultAction (LoadBalancerArn operation)
                         targetGroupArn]))) \<and>
        (Image operation = [] \<longrightarrow>
           (\<exists>repositoryUri username password tag.
              fst (createService_repository sess (ServiceName operation) s) = Inr repositoryUri \<and>
              GetUsernameAndPassword_reply sess = Inr (username, password) \<and>
              (if IsCwdGitRepo_reply sess then GetShortSha_reply sess = Inr tag
               else tag = GenerateTag_reply sess) \<and>
              filter isImageBuild (issued s') =
                [Ecr_GetUsernameAndPassword, Git_IsCwdGitRepo,
                 if IsCwdGitRepo_reply sess then Git_GetShortSha else Docker_GenerateTag,
                 Repository_Login repositoryUri username password,
                 Repository_Build repositoryUri tag,
                 Repository_Push repositoryUri tag] \<and>
              operation' = operation\<lparr>Image := UriFor sess repositoryUri tag\<rparr>)) \<and>
        (Image operation \<noteq> [] \<longrightarrow> operation' = operation))"
proof (intro impI conjI)
  assume "issued s = []" "LoadBalancerArn operation = []"
  with createService_not_wired [of operation sess s]
  show "filter isWiring (issued (snd (createService sess operation s))) = []" by simp
next
  assume "issued s = []" "Image operation \<noteq> []"
  with createService_not_built [of operation sess s]
  show "filter isImageBuild (issued (snd (createService sess operation s))) = []" by simp
next
  assume fresh: "issued s = []" and run: "createService sess operation s = (Inr operation', s')"
    and lb: "LoadBalancerArn operation \<noteq> []"
  from createService_steps [OF run] obtain repositoryUri s1 s4 s5 targetGroupArn s6 where
    repo: "createService_repository sess (ServiceName operation) s = (Inr repositoryUri, s1)"
    and w4: "filter isWiring (issued s4) = filter isWiring (issued s1)"
    and img: "createService_image sess repositoryUri operation s4 = (Inr operation', s5)"
    and wire: "createService_loadBalancer sess operation' s5 = (Inr targetGroupArn, s6)"
    and w': "filter isWiring (issued s') = filter isWiring (issued s6)"
    by blast
  from createService_repository_keeps(1) [of sess "ServiceName operation" s] repo fresh
  have w1: "filter isWiring (issued s1) = []" by simp
  from createService_image_keeps [of sess repositoryUri operation s4] img w4 w1
  have w5: "filter isWiring (issued s5) = []" by simp
  note same = createService_image_LoadBalancerArn [OF img]
  from lb same have "LoadBalancerArn operation' \<noteq> []" by simp
  from createService_loadBalancer_wired [OF this wire] obtain vpcId where
    "GetDefaultVpcId_reply sess = Inr vpcId"
    "CreateTargetGroup_reply (Elbv2 operation')
       \<lparr>CreateTargetGroupInput.Name = LoadBalancerName operation' @ ''-'' @ ServiceName operation',
        Port = Port.Port (Port operation'), Protocol = Protocol (Port operation'),
        VpcId = vpcId\<rparr> = Inr targetGroupArn"
    "issued s6 = issued s5 @
       [Ec2_GetDefaultVpcId,
        Elbv2_CreateTargetGroup
          \<lparr>CreateTargetGroupInput.Name = LoadBalancerName operation' @ ''-'' @ ServiceName operation',
           Port = Port.Port (Port operation'), Protocol = Protocol (Port operation'),
           VpcId = vpcId\<rparr>] @
       (if Rules operation' \<noteq> []
        then map (Elbv2_AddRule (LoadBalancerArn operation') targetGroupArn) (Rules operation')
        else [Elbv2_ModifyLoadBalancerDefaultAction (LoadBalancerArn operation') targetGroupArn])"
    by blast
  with same w' w5 have
    "GetDefaultVpcId_reply sess = Inr vpcId \<and>
     CreateTargetGroup_reply (Elbv2 operation)
       \<lparr>CreateTargetGroupInput.Name = LoadBalancerName operation @ ''-'' @ ServiceName operation,
        Port = Port.Port (Port operation), Protocol = Protocol (Port operation),
        VpcId = vpcId\<rparr> = Inr targetGroupArn \<and>
     filter isWiring (issued s') =
       [Ec2_GetDefaultVpcId,
        Elbv2_CreateTargetGroup
          \<lparr>CreateTargetGroupInput.Name = LoadBalancerName operation @ ''-'' @ ServiceName operation,
           Port = Port.Port (Port operation), Protocol = Protocol (Port operation),
           VpcId = vpcId\<rparr>] @
       (if Rules operation \<noteq> []
        then map (Elbv2_AddRule (LoadBalancerArn operation) targetGroupArn) (Rules operation)
        else [Elbv2_ModifyLoadBalancerDefaultAction (LoadBalancerArn operation) targetGroupArn])"
    by (simp add: filter_map comp_def)
  then show "\<exists>vpcId targetGroupArn.
              GetDefaultVpcId_reply sess = Inr vpcId \<and>
              CreateTargetGroup_reply (Elbv2 operation)
                \<lparr>CreateTargetGroupInput.Name =
                   LoadBalancerName operation @ ''-'' @ ServiceName operation,
                 Port = Port.Port (Port operation), Protocol = Protocol (Port operation),
                 VpcId = vpcId\<rparr> = Inr targetGroupArn \<and>
              filter isWiring (issued s') =
                [Ec2_GetDefaultVpcId,
                 Elbv2_CreateTargetGroup
                   \<lparr>CreateTargetGroupInput.Name =
                      LoadBalancerName operation @ ''-'' @ ServiceName operation,
                    Port = Port.Port (Port operation), Protocol = Protocol (Port operation),
                    VpcId = vpcId\<rparr>] @
                (if Rules operation \<noteq> []
                 then map (Elbv2_AddRule (LoadBalancerArn operation) targetGroupArn)
                        (Rules operation)
                 else [Elbv2_ModifyLoadBalancerDefaultAction (LoadBalancerArn operation)
                         targetGroupArn])"
    by blast
next
  assume fresh: "issued s = []" and run: "createService sess operation s = (Inr operation', s')"
    and noimage: "Image operation = []"
  from createService_steps [OF run] obtain repositoryUri s1 s4 s5 targetGroupArn s6 where
    repo: "createService_repository sess (ServiceName operation) s = (Inr repositoryUri, s1)"
    and b4: "filter isImageBuild (issued s4) = filter isImageBuild (issued s1)"
    and img: "createService_image sess repositoryUri operation s4 = (Inr operation', s5)"
    and wire: "createService_loadBalancer sess operation' s5 = (Inr targetGroupArn, s6)"
    and b': "filter isImageBuild (issued s') = filter isImageBuild (issued s6)"
    by blast
  from createService_repository_keeps(2) [of sess "ServiceName operation" s] repo fresh b4
  have b4': "filter isImageBuild (issued s4) = []" by simp
  from createService_image_built [OF noimage img] obtain username password tag where
    built: "GetUsernameAndPassword_reply sess = Inr (username, password)"
      "if IsCwdGitRepo_reply sess then GetShortSha_reply sess = Inr tag
       else tag = GenerateTag_reply sess"
      "issued s5 = issued s4 @
         [Ecr_GetUsernameAndPassword, Git_IsCwdGitRepo,
          if IsCwdGitRepo_reply sess then Git_GetShortSha else Docker_GenerateTag,
          Repository_Login repositoryUri username password,
          Repository_Build repositoryUri tag,
          Repository_Push repositoryUri tag]"
      "operation' = operation\<lparr>Image := UriFor sess repositoryUri tag\<rparr>"
    by blast
  from built(3) b4' have "filter isImageBuild (issued s5) =
      [Ecr_GetUsernameAndPassword, Git_IsCwdGitRepo,
       if IsCwdGitRepo_reply sess then Git_GetShortSha else Docker_GenerateTag,
       Repository_Login repositoryUri username password,
       Repository_Build repositoryUri tag,
       Repository_Push repositoryUri tag]"
    by simp
  with createService_loadBalancer_keeps [of sess operation' s5] wire b'
  have "filter isImageBuild (issued s') =
      [Ecr_GetUsernameAndPassword, Git_IsCwdGitRepo,
       if IsCwdGitRepo_reply sess then Git_GetShortSha else Docker_GenerateTag,
       Repository_Login repositoryUri username password,
       Repository_Build repositoryUri tag,
       Repository_Push repositoryUri tag]"
    by simp
  with repo built(1,2,4)
  show "\<exists>repositoryUri username password tag.
          fst (createService_repository sess (ServiceName operation) s) = Inr repositoryUri \<and>
          GetUsernameAndPassword_reply sess = Inr (username, password) \<and>
          (if IsCwdGitRepo_reply sess then GetShortSha_reply sess = Inr tag
           else tag = GenerateTag_reply sess) \<and>
          filter isImageBuild (issued s') =
            [Ecr_GetUsernameAndPassword, Git_IsCwdGitRepo,
             if IsCwdGitRepo_reply sess then Git_GetShortSha else Docker_GenerateTag,
             Repository_Login repositoryUri username password,
             Repository_Build repositoryUri tag,
             Repository_Push repositoryUri tag] \<and>
          operation' = operation\<lparr>Image := UriFor sess repositoryUri tag\<rparr>"
    by (intro exI [of _ repositoryUri] exI [of _ username] exI [of _ password] exI [of _ tag]) simp
next
  assume run: "createService sess operation s = (Inr operation', s')"
    and image: "Image operation \<noteq> []"
  from createService_steps [OF run] obtain repositoryUri s4 s5 where
    img: "createService_image sess repositoryUri operation s4 = (Inr operation', s5)"
    by blast
  with createService_image_skipped [OF image, of sess repositoryUri s4]
  show "operation' = operation" by simp
qed

lemmas createService_unfold =
  createService_def createService_repository_def createService_image_def
  createService_loadBalancer_def IsRepositoryCreated_def GetRepositoryUri_def
  CreateRepository_def andThen_def remote_def ret_def Let_def

lemma example_run_plain:
  "fst (createService example_session example_operation example_platform) =
     Inr (example_operation\<lparr>Image := ''1.dkr.ecr.us-east-1.amazonaws.com/web:abc1234''\<rparr>)"
  "filter isWiring (issued (snd (createService example_session example_operation example_platform))) = []"
  "filter isImageBuild (issued (snd (createService example_session example_operation example_platform))) =
     [Ecr_GetUsernameAndPassword, Git_IsCwdGitRepo, Git_GetShortSha,
      Repository_Login ''1.dkr.ecr.us-east-1.amazonaws.com/web'' ''AWS'' ''secret'',
      Repository_Build ''1.dkr.ecr.us-east-1.amazonaws.com/web'' ''abc1234'',
      Repository_Push ''1.dkr.ecr.us-east-1.amazonaws.com/web'' ''abc1234'']"
  by (simp_all add: createService_unfold example_session_def example_operation_def
      example_platform_def example_elbv2_def)

lemma example_run_ruled:
  "fst (createService example_session example_ruled example_platform) =
     Inr (example_ruled\<lparr>Image := ''1.dkr.ecr.us-east-1.amazonaws.com/web:abc1234''\<rparr>)"
  by (simp add: createService_unfold example_session_def example_operation_def
      example_platform_def example_elbv2_def example_bound_def example_ruled_def)

text \<open>The ruled operation is what the flags \<^verbatim>\<open>--lb my-alb --rule path=/api/*\<close> make of the
  plain one.\<close>

lemma example_ruled_from_flags:
  "fst (SetLoadBalancer example_operation ''my-alb'' example_platform) = Inr example_bound"
  "SetRules example_bound [''path=/api/*''] = Inr example_ruled"
  by (simp_all add: SetLoadBalancer_def andThen_def remote_def abort_def ret_def
      SetRules_unfold example_ruled_def example_bound_def example_operation_def example_elbv2_def
      example_platform_def)

text \<open>The two runs of the spec's end-to-end example: with no load balancer and no image the
  wiring is skipped and the image is built; with \<open>my-alb\<close> and one path rule the run
  creates the target group and attaches the one rule, and does not touch the default
  action.\<close>

theorem createService_wiring_and_build_witness:
  "filter isWiring (issued (snd (createService example_session example_operation example_platform))) = [] \<and>
   filter isImageBuild (issued (snd (createService example_session example_operation example_platform))) =
     [Ecr_GetUsernameAndPassword, Git_IsCwdGitRepo, Git_GetShortSha,
      Repository_Login ''1.dkr.ecr.us-east-1.amazonaws.com/web'' ''AWS'' ''secret'',
      Repository_Build ''1.dkr.ecr.us-east-1.amazonaws.com/web'' ''abc1234'',
      Repository_Push ''1.dkr.ecr.us-east-1.amazonaws.com/web'' ''abc1234''] \<and>
   filter isWiring (issued (snd (createService example_session example_ruled example_platform))) =
     [Ec2_GetDefaultVpcId,
      Elbv2_CreateTargetGroup
        \<lparr>CreateTargetGroupInput.Name = ''my-alb-web'', Port = 8080, Protocol = ''HTTP'',
         VpcId = ''vpc-1''\<rparr>,
      Elbv2_AddRule ''arn:alb'' ''arn:tg/my-alb-web'' \<lparr>Type = ''PATH'', Value = ''/api/*''\<rparr>] \<and>
   filter isImageBuild
     (issued (snd (createService example_session (example_operation\<lparr>Image := ''nginx:1''\<rparr>)
                     example_platform))) = []"
proof -
  have fresh: "issued example_platform = []" by (simp add: example_platform_def)
  have plain: "LoadBalancerArn example_operation = []" "Image example_operation = []"
    "ServiceName example_operation = ''web''"
    by (simp_all add: example_operation_def)
  have ruled: "LoadBalancerArn example_ruled = ''arn:alb''" "LoadBalancerName example_ruled = ''my-alb''"
    "ServiceName example_ruled = ''web''" "Port example_ruled = \<lparr>Port.Port = 8080, Protocol = ''HTTP''\<rparr>"
    "Rules example_ruled = [\<lparr>Type = ''PATH'', Value = ''/api/*''\<rparr>]"
    "Elbv2 example_ruled = example_elbv2"
    by (simp_all add: example_ruled_def example_bound_def example_operation_def)
  have replies: "GetDefaultVpcId_reply example_session = Inr ''vpc-1''"
    "\<And>input. CreateTargetGroup_reply example_elbv2 input = Inr (''arn:tg/'' @ CreateTargetGroupInput.Name input)"
    "GetUsernameAndPassword_reply example_session = Inr (''AWS'', ''secret'')"
    "IsCwdGitRepo_reply example_session" "GetShortSha_reply example_session = Inr ''abc1234''"
    "fst (createService_repository example_session ''web'' example_platform) =
       Inr ''1.dkr.ecr.us-east-1.amazonaws.com/web''"
    by (simp_all add: example_session_def example_elbv2_def example_platform_def
        createService_repository_def IsRepositoryCreated_def CreateRepository_def andThen_def
        remote_def)
  have run1: "createService example_session example_operation example_platform =
      (Inr (example_operation\<lparr>Image := ''1.dkr.ecr.us-east-1.amazonaws.com/web:abc1234''\<rparr>),
       snd (createService example_session example_operation example_platform))"
    using example_run_plain(1) by (metis prod.collapse)
  have run2: "createService example_session example_ruled example_platform =
      (Inr (example_ruled\<lparr>Image := ''1.dkr.ecr.us-east-1.amazonaws.com/web:abc1234''\<rparr>),
       snd (createService example_session example_ruled example_platform))"
    using example_run_ruled by (metis prod.collapse)
  have ne: "LoadBalancerArn example_ruled \<noteq> []" by (simp add: ruled)
  have given: "Image (example_operation\<lparr>Image := ''nginx:1''\<rparr>) \<noteq> []" by simp
  from createService_wiring_and_build [of example_platform example_operation example_session
      "example_operation\<lparr>Image := ''1.dkr.ecr.us-east-1.amazonaws.com/web:abc1234''\<rparr>"
      "snd (createService example_session example_operation example_platform)"] fresh plain run1
  have 1: "filter isWiring (issued (snd (createService example_session example_operation example_platform))) = []"
    and "\<exists>repositoryUri username password tag.
              fst (createService_repository example_session (ServiceName example_operation)
                     example_platform) = Inr repositoryUri \<and>
              GetUsernameAndPassword_reply example_session = Inr (username, password) \<and>
              (if IsCwdGitRepo_reply example_session then GetShortSha_reply example_session = Inr tag
               else tag = GenerateTag_reply example_session) \<and>
              filter isImageBuild
                (issued (snd (createService example_session example_operation example_platform))) =
                [Ecr_GetUsernameAndPassword, Git_IsCwdGitRepo,
                 if IsCwdGitRepo_reply example_session then Git_GetShortSha else Docker_GenerateTag,
                 Repository_Login repositoryUri username password,
                 Repository_Build repositoryUri tag,
                 Repository_Push repositoryUri tag] \<and>
              example_operation\<lparr>Image := ''1.dkr.ecr.us-east-1.amazonaws.com/web:abc1234''\<rparr> =
                example_operation\<lparr>Image := UriFor example_session repositoryUri tag\<rparr>"
    by blast+
  then have 2: "filter isImageBuild
      (issued (snd (createService example_session example_operation example_platform))) =
     [Ecr_GetUsernameAndPassword, Git_IsCwdGitRepo, Git_GetShortSha,
      Repository_Login ''1.dkr.ecr.us-east-1.amazonaws.com/web'' ''AWS'' ''secret'',
      Repository_Build ''1.dkr.ecr.us-east-1.amazonaws.com/web'' ''abc1234'',
      Repository_Push ''1.dkr.ecr.us-east-1.amazonaws.com/web'' ''abc1234'']"
    by (auto simp: plain replies)
  from createService_wiring_and_build [of example_platform example_ruled example_session
      "example_ruled\<lparr>Image := ''1.dkr.ecr.us-east-1.amazonaws.com/web:abc1234''\<rparr>"
      "snd (createService example_session example_ruled example_platform)"] fresh run2 ne
  have "\<exists>vpcId targetGroupArn.
              GetDefaultVpcId_reply example_session = Inr vpcId \<and>
              CreateTargetGroup_reply (Elbv2 example_ruled)
                \<lparr>CreateTargetGroupInput.Name =
                   LoadBalancerName example_ruled @ ''-'' @ ServiceName example_ruled,
                 Port = Port.Port (Port example_ruled), Protocol = Protocol (Port example_ruled),
                 VpcId = vpcId\<rparr> = Inr targetGroupArn \<and>
              filter isWiring (issued (snd (createService example_session example_ruled example_platform))) =
                [Ec2_GetDefaultVpcId,
                 Elbv2_CreateTargetGroup
                   \<lparr>CreateTargetGroupInput.Name =
                      LoadBalancerName example_ruled @ ''-'' @ ServiceName example_ruled,
                    Port = Port.Port (Port example_ruled), Protocol = Protocol (Port example_ruled),
                    VpcId = vpcId\<rparr>] @
                (if Rules example_ruled \<noteq> []
                 then map (Elbv2_AddRule (LoadBalancerArn example_ruled) targetGroupArn)
                        (Rules example_ruled)
                 else [Elbv2_ModifyLoadBalancerDefaultAction (LoadBalancerArn example_ruled)
                         targetGroupArn])"
    by blast
  then have 3: "filter isWiring (issued (snd (createService example_session example_ruled example_platform))) =
     [Ec2_GetDefaultVpcId,
      Elbv2_CreateTargetGroup
        \<lparr>CreateTargetGroupInput.Name = ''my-alb-web'', Port = 8080, Protocol = ''HTTP'',
         VpcId = ''vpc-1''\<rparr>,
      Elbv2_AddRule ''arn:alb'' ''arn:tg/my-alb-web'' \<lparr>Type = ''PATH'', Value = ''/api/*''\<rparr>]"
    by (auto simp: ruled replies)
  from createService_wiring_and_build [of example_platform "example_operation\<lparr>Image := ''nginx:1''\<rparr>"
      example_session] fresh given
  have 4: "filter isImageBuild
     (issued (snd (createService example_session (example_operation\<lparr>Image := ''nginx:1''\<rparr>)
                     example_platform))) = []"
    by blast
  from 1 2 3 4 show ?thesis by blast
qed

end
